theory Spec2Isabelle
  imports Main "HOL-Library.Word" "HOL-Library.Monad_Syntax"
begin

unbundle bit_operations_syntax

section \<open>Shared vocabulary\<close>

text \<open>
  Every \<^verbatim>\<open>assert\<close>, \<^verbatim>\<open>unreachable\<close> and out-of-range access of the C++ is a
  branch of the model that returns one of these errors.
\<close>

datatype error = AssertionFailed | Unreachable | OutOfBounds | OutOfFuel

text \<open>
  Reading a C array or a \<^verbatim>\<open>std::vector\<close> by index: outside the bounds the C++ is
  undefined, and the model returns \<open>None\<close>.
\<close>

definition nth_opt :: "'a list \<Rightarrow> nat \<Rightarrow> 'a option" where
  "nth_opt xs i = (if i < length xs then Some (xs ! i) else None)"

section \<open>Register bounds chosen by the allocator (aco_register_allocation.cpp)\<close>

text \<open>
  The fields of \<^verbatim>\<open>Program\<close> and \<^verbatim>\<open>ac_shader_config\<close> that the head of
  \<^verbatim>\<open>register_allocation\<close> reads and writes. All four are C \<^verbatim>\<open>unsigned\<close>; the only
  arithmetic on them is \<^verbatim>\<open>max_sgpr + 2\<close> on a constant of at most 100, so they are
  natural numbers here.
\<close>

record ac_shader_config =
  num_vgprs :: nat
  num_sgprs :: nat

record ra_program =
  program_vgpr_demand :: nat
  program_sgpr_demand :: nat
  config :: ac_shader_config

text \<open>
  The first statements of \<^verbatim>\<open>register_allocation\<close>: the assertion on the demand, the
  \<^verbatim>\<open>if\<close>/\<^verbatim>\<open>else if\<close> chain that picks \<^verbatim>\<open>(max_sgpr, max_vgpr)\<close>, in the source's
  order.
\<close>

definition register_bounds :: "ra_program \<Rightarrow> error + nat \<times> nat" where
  "register_bounds program =
     (if \<not> (program_vgpr_demand program \<le> 256 \<and> program_sgpr_demand program \<le> 100) then Inl AssertionFailed
      else if program_vgpr_demand program \<le> 24 \<and> program_sgpr_demand program \<le> 46 then Inr (46, 24)
      else if program_vgpr_demand program \<le> 28 \<and> program_sgpr_demand program \<le> 54 then Inr (54, 28)
      else if program_vgpr_demand program \<le> 32 \<and> program_sgpr_demand program \<le> 62 then Inr (62, 32)
      else if program_vgpr_demand program \<le> 36 \<and> program_sgpr_demand program \<le> 70 then Inr (70, 36)
      else if program_vgpr_demand program \<le> 40 \<and> program_sgpr_demand program \<le> 78 then Inr (78, 40)
      else if program_vgpr_demand program \<le> 48 \<and> program_sgpr_demand program \<le> 94 then Inr (94, 48)
      else Inr (100,
             if program_vgpr_demand program \<le> 64 then 64
             else if program_vgpr_demand program \<le> 84 then 84
             else if program_vgpr_demand program \<le> 128 then 128
             else 256))"

text \<open>
  \<^verbatim>\<open>register_allocation\<close> up to the two stores into \<^verbatim>\<open>program->config\<close>; the
  allocation proper, which follows, never writes these two fields again.
\<close>

definition register_allocation :: "ra_program \<Rightarrow> error + ra_program" where
  "register_allocation program =
     (case register_bounds program of
        Inl e \<Rightarrow> Inl e
      | Inr (ms, mv) \<Rightarrow>
          Inr (program\<lparr>config := (config program)\<lparr>num_vgprs := mv,
                                                    num_sgprs := ms + 2\<rparr>\<rparr>))"

text \<open>
  The specification's table, in its words: six fixed entries \<open>(max_s, max_v)\<close> and a last
  entry whose scalar bound is 100 and whose vector bound is anything up to 256.
\<close>

definition wave_table :: "(nat \<times> nat) list" where
  "wave_table = [(46, 24), (54, 28), (62, 32), (70, 36), (78, 40), (94, 48)]"

definition fits :: "ra_program \<Rightarrow> nat \<times> nat \<Rightarrow> bool" where
  "fits program e \<longleftrightarrow> program_sgpr_demand program \<le> fst e \<and> program_vgpr_demand program \<le> snd e"

definition in_table :: "nat \<times> nat \<Rightarrow> bool" where
  "in_table e \<longleftrightarrow> e \<in> set wave_table \<or> (fst e = 100 \<and> snd e \<le> 256)"

section \<open>Occupancy derived by the liveness pass (live_var_analysis)\<close>

text \<open>
  The fields of \<^verbatim>\<open>Program\<close> that the end of \<^verbatim>\<open>live_var_analysis\<close> writes. The
  values stored are all results of \<^verbatim>\<open>uint16_t\<close> expressions.
\<close>

record lv_program =
  num_waves :: "16 word"
  max_sgpr :: "16 word"
  max_vgpr :: "16 word"

text \<open>
  The enumerators of \<^verbatim>\<open>enum chip_class\<close> are declared in \<^verbatim>\<open>amd_family.h\<close>, which
  is not among the sources; the code only compares \<^verbatim>\<open>options->chip_class >= VI\<close> on
  their integer values, so the value of \<^verbatim>\<open>VI\<close> is a parameter.
\<close>

definition total_sgpr_regs :: "nat \<Rightarrow> nat \<Rightarrow> 16 word" where
  "total_sgpr_regs VI chip_class = (if chip_class \<ge> VI then 800 else 512)"

definition max_addressible_sgpr :: "nat \<Rightarrow> nat \<Rightarrow> 16 word" where
  "max_addressible_sgpr VI chip_class = (if chip_class \<ge> VI then 102 else 104)"

text \<open>
  \<^verbatim>\<open>live_var_analysis\<close> from \<^verbatim>\<open>/* Add VCC to demand */\<close> to its end. The arguments
  \<open>vgpr_demand\<close> and \<open>sgpr_demand0\<close> are the two \<^verbatim>\<open>uint16_t\<close> locals as the worklist
  loop leaves them: the maxima of the blocks' demands. \<open>register_demand\<close> is the template
  parameter. The C++ computes \<^verbatim>\<open>(x + 3) & ~3\<close> in \<^verbatim>\<open>int\<close> and converts to
  \<^verbatim>\<open>uint16_t\<close>, which is the 16-bit result. Both divisors are at least 4 and 8, and
  \<open>nw\<close> is at least 1 in the branch that divides by it.
\<close>

definition live_var_analysis_demand ::
  "nat \<Rightarrow> bool \<Rightarrow> nat \<Rightarrow> 16 word \<Rightarrow> 16 word \<Rightarrow> lv_program \<Rightarrow> lv_program" where
  "live_var_analysis_demand VI register_demand chip_class vgpr_demand sgpr_demand0 program =
     (let sgpr_demand = sgpr_demand0 + 2 in
      if register_demand then
        let rounded_vgpr_demand = max 4 ((vgpr_demand + 3) AND NOT 3);
            rounded_sgpr_demand =
              min (max 8 ((sgpr_demand + 7) AND NOT 7)) (max_addressible_sgpr VI chip_class)
        in if vgpr_demand > 256 \<or> sgpr_demand > max_addressible_sgpr VI chip_class
           then program\<lparr>num_waves := 0, max_sgpr := sgpr_demand, max_vgpr := vgpr_demand\<rparr>
           else
             let nw = min 10 (min (256 div rounded_vgpr_demand)
                                  (total_sgpr_regs VI chip_class div rounded_sgpr_demand))
             in program\<lparr>num_waves := nw,
                  max_sgpr := min ((total_sgpr_regs VI chip_class div nw) AND NOT 7)
                                  (max_addressible_sgpr VI chip_class) - 2,
                  max_vgpr := (256 div nw) AND NOT 3\<rparr>
      else program)"

text \<open>
  The specification's formula, in its words: \<open>round4\<close> and \<open>round8\<close> round up to a
  multiple of 4 and of 8, and
  \<open>num_waves = min(10, 256 / round4(v), total_s / round8(s + 2))\<close>. The formula has
  no value where it divides by zero.
\<close>

definition round4 :: "nat \<Rightarrow> nat" where
  "round4 n = (n + 3) div 4 * 4"

definition round8 :: "nat \<Rightarrow> nat" where
  "round8 n = (n + 7) div 8 * 8"

definition spec_num_waves :: "nat \<Rightarrow> nat \<Rightarrow> nat \<Rightarrow> nat option" where
  "spec_num_waves total_s v s =
     (if round4 v = 0 \<or> round8 (s + 2) = 0 then None
      else Some (min 10 (min (256 div round4 v) (total_s div round8 (s + 2)))))"

section \<open>The compiler driver (aco_compile_shader)\<close>

text \<open>
  \<^verbatim>\<open>gl_shader_stage\<close> of \<^verbatim>\<open>shader_enums.h\<close>, which is not among the sources.
\<close>

datatype gl_shader_stage =
  MESA_SHADER_VERTEX | MESA_SHADER_TESS_CTRL | MESA_SHADER_TESS_EVAL |
  MESA_SHADER_GEOMETRY | MESA_SHADER_FRAGMENT | MESA_SHADER_COMPUTE

text \<open>The two fields of \<^verbatim>\<open>ac_shader_binary\<close> that the driver writes.\<close>

record ac_shader_binary =
  code :: "32 word list"
  code_size :: nat

text \<open>What the driver writes to \<^verbatim>\<open>std::cerr\<close>, in order.\<close>

datatype 'p log_entry =
  Log_text string | Log_program 'p | Log_unsigned nat | Log_asm "32 word list" string

text \<open>
  Everything \<^verbatim>\<open>aco_compile_shader\<close> can change: the three structures it receives by
  pointer and the error stream.
\<close>

record ('p, 'i) driver_state =
  out_config :: ac_shader_config
  out_info :: 'i
  out_binary :: ac_shader_binary
  out_stderr :: "'p log_entry list"

text \<open>
  The passes that \<^verbatim>\<open>aco_compile_shader\<close> calls are declared in \<^verbatim>\<open>aco_ir.h\<close> and
  taken as parameters. A program holds the pointers \<^verbatim>\<open>config\<close> and \<^verbatim>\<open>info\<close> it was
  selected with, so what the passes store through them is read back from the program.
\<close>

record ('p, 's, 'i, 'o) pipeline =
  select_program :: "'s \<Rightarrow> ac_shader_config \<Rightarrow> 'i \<Rightarrow> 'o \<Rightarrow> 'p"
  run_register_allocation :: "'p \<Rightarrow> 'p"
  eliminate_pseudo_instr :: "'p \<Rightarrow> 'p"
  schedule :: "'p \<Rightarrow> 'p"
  insert_wait_states :: "'p \<Rightarrow> 'p"
  run_emit_program :: "'p \<Rightarrow> 'p \<times> 32 word list"
  program_config :: "'p \<Rightarrow> ac_shader_config"
  program_info :: "'p \<Rightarrow> 'i"
  zeroed_info :: 'i

text \<open>
  \<^verbatim>\<open>aco_compile_shader\<close>. The second \<^verbatim>\<open>memset\<close> clears \<^verbatim>\<open>sizeof(*info)\<close> bytes at
  \<^verbatim>\<open>config\<close>; the model clears \<^verbatim>\<open>config\<close> and nothing beyond it.
\<close>

definition aco_compile_shader ::
  "('p, 's, 'i, 'o) pipeline \<Rightarrow> gl_shader_stage \<Rightarrow> 's \<Rightarrow> 'o \<Rightarrow>
   ('p, 'i) driver_state \<Rightarrow> ('p, 'i) driver_state" where
  "aco_compile_shader P stage shader options st =
     (if stage \<noteq> MESA_SHADER_FRAGMENT then st
      else
        let info0 = zeroed_info P;
            config0 = \<lparr>num_vgprs = 0, num_sgprs = 0\<rparr>;
            program1 = select_program P shader config0 info0 options;
            program2 = run_register_allocation P program1;
            program3 = eliminate_pseudo_instr P program2;
            program4 = schedule P program3;
            program5 = insert_wait_states P program4;
            (program6, emitted) = run_emit_program P program5
        in \<lparr>out_config = program_config P program6,
            out_info = program_info P program6,
            out_binary = \<lparr>code = emitted, code_size = length emitted * 4\<rparr>,
            out_stderr = out_stderr st @
              [Log_text ''After Instruction Selection:'', Log_program program1,
               Log_text ''After RA:'', Log_program program2,
               Log_text ''After Eliminate Pseudo Instr:'', Log_program program3,
               Log_text ''After PostRA Schedule:'', Log_program program4,
               Log_text ''After Insert-Waitcnt:'', Log_program program5,
               Log_text ''After Assembly:'',
               Log_text ''Num VGPRs: '', Log_unsigned (num_vgprs (program_config P program6)),
               Log_text ''Num SGPRs: '', Log_unsigned (num_sgprs (program_config P program6)),
               Log_asm emitted ''/usr/bin/llvm-mc-7'']\<rparr>)"

text \<open>A small pipeline and state to run the driver on.\<close>

definition example_pipeline ::
  "(ac_shader_config \<times> 32 word list, unit, bool, unit) pipeline" where
  "example_pipeline =
     \<lparr>select_program = (\<lambda>s c i opts. (c, [1])),
      run_register_allocation = (\<lambda>p. (fst p\<lparr>num_vgprs := 24, num_sgprs := 48\<rparr>, snd p)),
      eliminate_pseudo_instr = id, schedule = id, insert_wait_states = id,
      run_emit_program = (\<lambda>p. (p, snd p)),
      program_config = fst, program_info = (\<lambda>p. True), zeroed_info = False\<rparr>"

definition example_driver_state ::
  "(ac_shader_config \<times> 32 word list, bool) driver_state" where
  "example_driver_state =
     \<lparr>out_config = \<lparr>num_vgprs = 7, num_sgprs = 9\<rparr>, out_info = True,
      out_binary = \<lparr>code = [], code_size = 0\<rparr>, out_stderr = []\<rparr>"

section \<open>Divergence analysis (nir_divergence_analysis.c)\<close>

text \<open>
  The array \<^verbatim>\<open>bool *divergent\<close> has \<^verbatim>\<open>impl->ssa_alloc\<close> entries. It is a list here; a
  read or a write outside it is undefined in C and is \<open>None\<close> in the model, as is a failed
  \<^verbatim>\<open>assert\<close> or \<^verbatim>\<open>unreachable\<close>.
\<close>

definition rd :: "bool list \<Rightarrow> nat \<Rightarrow> bool option" where
  "rd divergent i = (if i < length divergent then Some (divergent ! i) else None)"

definition wr :: "bool list \<Rightarrow> nat \<Rightarrow> bool \<Rightarrow> bool list option" where
  "wr divergent i v = (if i < length divergent then Some (divergent[i := v]) else None)"

subsection \<open>The parts of the NIR data structures that the pass reads\<close>

text \<open>
  \<^verbatim>\<open>nir.h\<close> is not among the sources. Each record below holds the fields that the pass
  reads through the pointers of an instruction, under the names the pass uses.
\<close>

datatype nir_op = nir_op_vec2 | nir_op_vec3 | nir_op_vec4 | nir_op_other nat

datatype nir_instr_type =
  nir_instr_type_alu | nir_instr_type_deref | nir_instr_type_call | nir_instr_type_tex |
  nir_instr_type_intrinsic | nir_instr_type_load_const | nir_instr_type_jump |
  nir_instr_type_ssa_undef | nir_instr_type_phi | nir_instr_type_parallel_copy

text \<open>
  What \<^verbatim>\<open>alu_src_is_divergent\<close> reads of \<^verbatim>\<open>src.src.parent_instr\<close>: its type and, when
  it is an ALU instruction, its opcode and the SSA indices of its sources
  (\<^verbatim>\<open>parent->src[k].src.ssa->index\<close>).
\<close>

record parent_instr =
  parent_type :: nir_instr_type
  parent_op :: nir_op
  parent_src_index :: "nat list"

record nir_alu_src =
  ssa_index :: nat
  ssa_num_components :: nat
  src_parent_instr :: parent_instr
  swizzle0 :: nat

text \<open>
  \<open>num_inputs\<close> and \<open>input_sizes\<close> are \<^verbatim>\<open>nir_op_infos[instr->op]\<close>, a table that is not
  among the sources.
\<close>

record nir_alu_instr =
  alu_dest :: nat
  alu_op :: nir_op
  alu_src :: "nir_alu_src list"
  num_inputs :: nat
  input_sizes :: "nat list"

datatype nir_intrinsic_op =
  nir_intrinsic_shader_clock | nir_intrinsic_ballot | nir_intrinsic_read_invocation |
  nir_intrinsic_read_first_invocation | nir_intrinsic_vote_any | nir_intrinsic_vote_all |
  nir_intrinsic_vote_feq | nir_intrinsic_vote_ieq | nir_intrinsic_reduce |
  nir_intrinsic_load_push_constant | nir_intrinsic_vulkan_resource_index |
  nir_intrinsic_load_ubo | nir_intrinsic_load_interpolated_input |
  nir_intrinsic_load_barycentric_pixel | nir_intrinsic_other nat

text \<open>\<open>has_dest\<close> and \<open>num_srcs\<close> are \<^verbatim>\<open>nir_intrinsic_infos[instr->intrinsic]\<close>.\<close>

record nir_intrinsic_instr =
  intrinsic :: nir_intrinsic_op
  has_dest :: bool
  intrinsic_dest :: nat
  num_srcs :: nat
  intrinsic_src :: "nat list"

datatype nir_tex_src_type = nir_tex_src_coord | nir_tex_src_other nat

record nir_tex_instr =
  tex_dest :: nat
  tex_src :: "(nir_tex_src_type \<times> nat) list"

text \<open>
  A control-flow node as the pass sees it: its type and, for an \<^verbatim>\<open>if\<close>, the SSA index of
  its condition. Blocks and loops are named by a number, for the pointer comparisons.
\<close>

datatype nir_cf_node =
  nir_cf_node_block nat | nir_cf_node_if nat | nir_cf_node_loop nat | nir_cf_node_function

text \<open>
  A phi source: the index of its value, whether the instruction defining the value is an
  \<^verbatim>\<open>ssa_undef\<close>, the predecessor block, and the chain \<^verbatim>\<open>pred->cf_node.parent\<close>,
  \<^verbatim>\<open>->parent\<close>, ... up to the function, whose own parent is \<^verbatim>\<open>NULL\<close>.
\<close>

record nir_phi_src =
  phi_src_index :: nat
  phi_src_is_undef :: bool
  pred :: nat
  pred_ancestors :: "nir_cf_node list"

text \<open>
  A phi: \<open>block_prev\<close> is \<^verbatim>\<open>nir_cf_node_prev\<close> of the phi's block, \<open>block_parent\<close> is
  \<^verbatim>\<open>instr->instr.block->cf_node.parent\<close>; when that parent is a loop,
  \<open>loop_last_block\<close> is \<^verbatim>\<open>nir_loop_last_block\<close> of it and \<open>loop_prev\<close> is
  \<^verbatim>\<open>nir_cf_node_prev\<close> of it.
\<close>

record nir_phi_instr =
  phi_dest :: nat
  phi_srcs :: "nir_phi_src list"
  block_prev :: "nir_cf_node option"
  block_parent :: nir_cf_node
  loop_last_block :: nat
  loop_prev :: "nir_cf_node option"

record nir_deref_instr =
  deref_dest :: nat
  deref_uses :: "nir_instr_type list"

datatype nir_instr =
  Alu nir_alu_instr
| Intrinsic nir_intrinsic_instr
| Tex nir_tex_instr
| Phi nir_phi_instr
| Parallel_copy "(nat \<times> nat) list"
| Load_const nat
| Ssa_undef nat
| Deref nir_deref_instr
| Jump
| Call
| Invalid_instr

subsection \<open>The visit functions\<close>

definition alu_src_is_divergent :: "bool list \<Rightarrow> nir_alu_src \<Rightarrow> nat \<Rightarrow> bool option" where
  "alu_src_is_divergent divergent src num_input_components =
     (if num_input_components = 1 \<and> ssa_num_components src \<noteq> 1 \<and>
         parent_type (src_parent_instr src) = nir_instr_type_alu \<and>
         parent_op (src_parent_instr src) \<in> {nir_op_vec2, nir_op_vec3, nir_op_vec4}
      then do {
        k \<leftarrow> nth_opt (parent_src_index (src_parent_instr src)) (swizzle0 src);
        rd divergent k }
      else rd divergent (ssa_index src))"

text \<open>The \<^verbatim>\<open>for\<close> loop of \<^verbatim>\<open>visit_alu\<close>, over the indices still to visit.\<close>

fun alu_any_src_divergent :: "bool list \<Rightarrow> nir_alu_instr \<Rightarrow> nat list \<Rightarrow> bool option" where
  "alu_any_src_divergent divergent instr [] = Some False"
| "alu_any_src_divergent divergent instr (i # is) = do {
     src \<leftarrow> nth_opt (alu_src instr) i;
     size \<leftarrow> nth_opt (input_sizes instr) i;
     d \<leftarrow> alu_src_is_divergent divergent src size;
     if d then Some True else alu_any_src_divergent divergent instr is }"

definition visit_alu :: "bool list \<Rightarrow> nir_alu_instr \<Rightarrow> (bool list \<times> bool) option" where
  "visit_alu divergent instr = do {
     d \<leftarrow> rd divergent (alu_dest instr);
     if d then Some (divergent, False)
     else do {
       any \<leftarrow> alu_any_src_divergent divergent instr [0 ..< num_inputs instr];
       t \<leftarrow> wr divergent (alu_dest instr) any;
       Some (t, any) } }"

fun ubo_any_src_divergent :: "bool list \<Rightarrow> nir_intrinsic_instr \<Rightarrow> nat list \<Rightarrow> bool option" where
  "ubo_any_src_divergent divergent instr [] = Some False"
| "ubo_any_src_divergent divergent instr (i # is) = do {
     src \<leftarrow> nth_opt (intrinsic_src instr) i;
     d \<leftarrow> rd divergent src;
     if d then Some True else ubo_any_src_divergent divergent instr is }"

definition visit_intrinsic ::
  "bool list \<Rightarrow> nir_intrinsic_instr \<Rightarrow> (bool list \<times> bool) option" where
  "visit_intrinsic divergent instr =
     (if \<not> has_dest instr then Some (divergent, False)
      else do {
        d \<leftarrow> rd divergent (intrinsic_dest instr);
        if d then Some (divergent, False)
        else do {
          is_divergent \<leftarrow>
            (if intrinsic instr \<in> {nir_intrinsic_shader_clock, nir_intrinsic_ballot,
                  nir_intrinsic_read_invocation, nir_intrinsic_read_first_invocation,
                  nir_intrinsic_vote_any, nir_intrinsic_vote_all, nir_intrinsic_vote_feq,
                  nir_intrinsic_vote_ieq, nir_intrinsic_reduce,
                  nir_intrinsic_load_push_constant, nir_intrinsic_vulkan_resource_index}
             then Some False
             else if intrinsic instr = nir_intrinsic_load_ubo
             then ubo_any_src_divergent divergent instr [0 ..< num_srcs instr]
             else Some True);
          t \<leftarrow> wr divergent (intrinsic_dest instr) is_divergent;
          Some (t, is_divergent) } })"

fun tex_coord_divergent :: "bool list \<Rightarrow> (nir_tex_src_type \<times> nat) list \<Rightarrow> bool \<Rightarrow> bool option" where
  "tex_coord_divergent divergent [] is_divergent = Some is_divergent"
| "tex_coord_divergent divergent ((ty, idx) # srcs) is_divergent =
     (if ty = nir_tex_src_coord
      then do { d \<leftarrow> rd divergent idx; tex_coord_divergent divergent srcs (is_divergent \<or> d) }
      else tex_coord_divergent divergent srcs is_divergent)"

definition visit_tex :: "bool list \<Rightarrow> nir_tex_instr \<Rightarrow> (bool list \<times> bool) option" where
  "visit_tex divergent instr = do {
     d \<leftarrow> rd divergent (tex_dest instr);
     if d then Some (divergent, False)
     else do {
       is_divergent \<leftarrow> tex_coord_divergent divergent (tex_src instr) False;
       t \<leftarrow> wr divergent (tex_dest instr) is_divergent;
       Some (t, is_divergent) } }"

text \<open>
  The first loop of \<^verbatim>\<open>visit_phi\<close>: \<open>Some None\<close> when a divergent source is met,
  \<open>Some (Some n)\<close> with the count \<open>non_undef\<close> otherwise.
\<close>

fun phi_scan_srcs :: "bool list \<Rightarrow> nir_phi_src list \<Rightarrow> nat \<Rightarrow> nat option option" where
  "phi_scan_srcs divergent [] non_undef = Some (Some non_undef)"
| "phi_scan_srcs divergent (src # srcs) non_undef = do {
     d \<leftarrow> rd divergent (phi_src_index src);
     if d then Some None
     else phi_scan_srcs divergent srcs
            (if \<not> phi_src_is_undef src then non_undef + 1 else non_undef) }"

text \<open>
  The walk \<^verbatim>\<open>while (current->type != nir_cf_node_loop)\<close> up the parents: \<open>Some True\<close>
  when a divergent \<^verbatim>\<open>if\<close> condition is met before the loop. Past the function node
  \<^verbatim>\<open>current\<close> is \<^verbatim>\<open>NULL\<close>.
\<close>

fun any_condition_divergent :: "bool list \<Rightarrow> nir_cf_node list \<Rightarrow> bool option" where
  "any_condition_divergent divergent [] = None"
| "any_condition_divergent divergent (nir_cf_node_loop l # ancestors) = Some False"
| "any_condition_divergent divergent (nir_cf_node_if cond # ancestors) = do {
     d \<leftarrow> rd divergent cond;
     if d then Some True else any_condition_divergent divergent ancestors }"
| "any_condition_divergent divergent (node # ancestors) =
     any_condition_divergent divergent ancestors"

text \<open>
  The sources the mu case collects in \<^verbatim>\<open>unconditional[2]\<close>. The cast
  \<^verbatim>\<open>nir_cf_node_as_block(prev)\<close> is evaluated, and asserts that \<^verbatim>\<open>prev\<close> is a block,
  only for a source whose predecessor is not the loop's last block.
\<close>

fun unconditional_srcs :: "nir_phi_instr \<Rightarrow> nir_phi_src list \<Rightarrow> nat list option" where
  "unconditional_srcs instr [] = Some []"
| "unconditional_srcs instr (src # srcs) = do {
     m \<leftarrow> (if pred src = loop_last_block instr then Some True
           else case loop_prev instr of
                  Some (nir_cf_node_block prev_block) \<Rightarrow> Some (pred src = prev_block)
                | _ \<Rightarrow> None);
     rest \<leftarrow> unconditional_srcs instr srcs;
     Some (if m then phi_src_index src # rest else rest) }"

fun mu_conditions_divergent ::
  "bool list \<Rightarrow> nat \<Rightarrow> nat \<Rightarrow> nir_phi_src list \<Rightarrow> bool option" where
  "mu_conditions_divergent divergent u0 u1 [] = Some False"
| "mu_conditions_divergent divergent u0 u1 (src # srcs) =
     (if phi_src_index src = u0 \<or> phi_src_index src = u1
      then mu_conditions_divergent divergent u0 u1 srcs
      else do {
        d \<leftarrow> any_condition_divergent divergent (pred_ancestors src);
        if d then Some True else mu_conditions_divergent divergent u0 u1 srcs })"

fun eta_conditions_divergent :: "bool list \<Rightarrow> nir_phi_src list \<Rightarrow> bool option" where
  "eta_conditions_divergent divergent [] = Some False"
| "eta_conditions_divergent divergent (src # srcs) =
     (case pred_ancestors src of
        nir_cf_node_if cond # ancestors \<Rightarrow> do {
          d \<leftarrow> any_condition_divergent divergent (pred_ancestors src);
          if d then Some True else eta_conditions_divergent divergent srcs }
      | _ \<Rightarrow> None)"

text \<open>
  The three cases of \<^verbatim>\<open>visit_phi\<close> after the first loop: mu when the block has no
  previous node, gamma when the previous node is an \<^verbatim>\<open>if\<close>, eta otherwise. In the mu
  case the casts \<^verbatim>\<open>nir_cf_node_as_loop\<close> and \<^verbatim>\<open>nir_cf_node_as_block\<close> assert the node
  types, a third unconditional source would be written past \<^verbatim>\<open>unconditional[2]\<close>, and
  \<^verbatim>\<open>assert(idx == 2)\<close> follows.
\<close>

definition phi_condition_divergent :: "bool list \<Rightarrow> nir_phi_instr \<Rightarrow> bool option" where
  "phi_condition_divergent divergent instr =
     (case block_prev instr of
        None \<Rightarrow>
          (case block_parent instr of
             nir_cf_node_loop l \<Rightarrow>
               (case unconditional_srcs instr (phi_srcs instr) of
                  Some [u0, u1] \<Rightarrow> mu_conditions_divergent divergent u0 u1 (phi_srcs instr)
                | _ \<Rightarrow> None)
           | _ \<Rightarrow> None)
      | Some (nir_cf_node_if cond) \<Rightarrow> rd divergent cond
      | Some (nir_cf_node_loop l) \<Rightarrow> eta_conditions_divergent divergent (phi_srcs instr)
      | Some _ \<Rightarrow> None)"

definition visit_phi :: "bool list \<Rightarrow> nir_phi_instr \<Rightarrow> (bool list \<times> bool) option" where
  "visit_phi divergent instr = do {
     d \<leftarrow> rd divergent (phi_dest instr);
     if d then Some (divergent, False)
     else do {
       scan \<leftarrow> phi_scan_srcs divergent (phi_srcs instr) 0;
       case scan of
         None \<Rightarrow> do { t \<leftarrow> wr divergent (phi_dest instr) True; Some (t, True) }
       | Some non_undef \<Rightarrow>
           if non_undef \<le> 1 then Some (divergent, False)
           else do {
             c \<leftarrow> phi_condition_divergent divergent instr;
             t \<leftarrow> wr divergent (phi_dest instr) c;
             Some (t, c) } } }"

fun visit_parallel_copy ::
  "bool list \<Rightarrow> (nat \<times> nat) list \<Rightarrow> bool \<Rightarrow> (bool list \<times> bool) option" where
  "visit_parallel_copy divergent [] has_changed = Some (divergent, has_changed)"
| "visit_parallel_copy divergent ((dest, src) # entries) has_changed = do {
     d \<leftarrow> rd divergent dest;
     if d then visit_parallel_copy divergent entries has_changed
     else do {
       s \<leftarrow> rd divergent src;
       t \<leftarrow> wr divergent dest s;
       visit_parallel_copy t entries (has_changed \<or> s) } }"

definition visit_load_const :: "bool list \<Rightarrow> nat \<Rightarrow> (bool list \<times> bool) option" where
  "visit_load_const divergent def_index = do {
     t \<leftarrow> wr divergent def_index False; Some (t, False) }"

definition visit_ssa_undef :: "bool list \<Rightarrow> nat \<Rightarrow> (bool list \<times> bool) option" where
  "visit_ssa_undef divergent def_index = do {
     t \<leftarrow> wr divergent def_index False; Some (t, False) }"

definition visit_deref :: "bool list \<Rightarrow> nir_deref_instr \<Rightarrow> (bool list \<times> bool) option" where
  "visit_deref divergent instr =
     (if \<exists>ty \<in> set (deref_uses instr). ty \<noteq> nir_instr_type_tex
      then do { t \<leftarrow> wr divergent (deref_dest instr) False; Some (t, False) }
      else do {
        before \<leftarrow> rd divergent (deref_dest instr);
        t \<leftarrow> wr divergent (deref_dest instr) True;
        Some (t, \<not> before) })"

text \<open>The \<^verbatim>\<open>switch (instr->type)\<close> in the body of \<^verbatim>\<open>nir_divergence_analysis\<close>.\<close>

fun visit_instr :: "bool list \<Rightarrow> nir_instr \<Rightarrow> (bool list \<times> bool) option" where
  "visit_instr t (Alu instr) = visit_alu t instr"
| "visit_instr t (Intrinsic instr) = visit_intrinsic t instr"
| "visit_instr t (Tex instr) = visit_tex t instr"
| "visit_instr t (Phi instr) = visit_phi t instr"
| "visit_instr t (Parallel_copy entries) = visit_parallel_copy t entries False"
| "visit_instr t (Load_const def_index) = visit_load_const t def_index"
| "visit_instr t (Ssa_undef def_index) = visit_ssa_undef t def_index"
| "visit_instr t (Deref instr) = visit_deref t instr"
| "visit_instr t Jump = Some (t, False)"
| "visit_instr t Call = None"
| "visit_instr t Invalid_instr = None"

text \<open>\<^verbatim>\<open>nir_foreach_instr\<close> over one block, accumulating \<^verbatim>\<open>has_changed\<close>.\<close>

fun visit_block :: "bool list \<Rightarrow> nir_instr list \<Rightarrow> bool \<Rightarrow> (bool list \<times> bool) option" where
  "visit_block t [] has_changed = Some (t, has_changed)"
| "visit_block t (instr # instrs) has_changed = do {
     (t', c) \<leftarrow> visit_instr t instr;
     visit_block t' instrs (has_changed \<or> c) }"

text \<open>
  The function implementation: \<^verbatim>\<open>impl->ssa_alloc\<close> and the blocks, each the list of its
  instructions, a block's number being its position.
\<close>

record nir_function_impl =
  ssa_alloc :: nat
  impl_blocks :: "nir_instr list list"

text \<open>
  \<^verbatim>\<open>nir_block_worklist\<close> (\<^verbatim>\<open>nir_worklist.h\<close>, not among the sources) is a queue that holds
  a block at most once: \<^verbatim>\<open>push_tail\<close> does nothing for a block that is in it, and
  \<^verbatim>\<open>add_all\<close> pushes every block of the function in order.
\<close>

definition nir_block_worklist_push_tail :: "nat list \<Rightarrow> nat \<Rightarrow> nat list" where
  "nir_block_worklist_push_tail worklist b = (if b \<in> set worklist then worklist else worklist @ [b])"

definition nir_block_worklist_add_all :: "nat list \<Rightarrow> nir_function_impl \<Rightarrow> nat list" where
  "nir_block_worklist_add_all worklist impl =
     foldl nir_block_worklist_push_tail worklist [0 ..< length (impl_blocks impl)]"

text \<open>
  The \<^verbatim>\<open>while\<close> loop of \<^verbatim>\<open>nir_divergence_analysis\<close>. Nothing in the code bounds the
  number of iterations, so the model counts them down from \<open>fuel\<close> and returns \<open>None\<close>
  when it runs out.
\<close>

fun divergence_loop ::
  "nat \<Rightarrow> nir_function_impl \<Rightarrow> nat list \<Rightarrow> bool list \<Rightarrow> bool list option" where
  "divergence_loop fuel impl [] t = Some t"
| "divergence_loop 0 impl (b # worklist) t = None"
| "divergence_loop (Suc fuel) impl (b # worklist) t = do {
     block \<leftarrow> nth_opt (impl_blocks impl) b;
     (t', has_changed) \<leftarrow> visit_block t block False;
     divergence_loop fuel impl
       (if has_changed then nir_block_worklist_add_all worklist impl else worklist) t' }"

definition nir_divergence_analysis :: "nat \<Rightarrow> nir_function_impl \<Rightarrow> bool list option" where
  "nir_divergence_analysis fuel impl =
     divergence_loop fuel impl (nir_block_worklist_add_all [] impl)
       (replicate (ssa_alloc impl) False)"

text \<open>
  Any sequence of visits, for the states the iteration can pass through: the list of
  instructions visited so far, in order.
\<close>

fun visit_all :: "bool list \<Rightarrow> nir_instr list \<Rightarrow> bool list option" where
  "visit_all t [] = Some t"
| "visit_all t (instr # instrs) = do { (t', c) \<leftarrow> visit_instr t instr; visit_all t' instrs }"

text \<open>
  The SSA indices an instruction defines, and SSA form as the pass relies on it: no index
  is defined twice in the function.
\<close>

fun dests :: "nir_instr \<Rightarrow> nat list" where
  "dests (Alu instr) = [alu_dest instr]"
| "dests (Intrinsic instr) = (if has_dest instr then [intrinsic_dest instr] else [])"
| "dests (Tex instr) = [tex_dest instr]"
| "dests (Phi instr) = [phi_dest instr]"
| "dests (Parallel_copy entries) = map fst entries"
| "dests (Load_const def_index) = [def_index]"
| "dests (Ssa_undef def_index) = [def_index]"
| "dests (Deref instr) = [deref_dest instr]"
| "dests Jump = []"
| "dests Call = []"
| "dests Invalid_instr = []"

definition impl_instrs :: "nir_function_impl \<Rightarrow> nir_instr list" where
  "impl_instrs impl = concat (impl_blocks impl)"

definition ssa_form :: "nir_function_impl \<Rightarrow> bool" where
  "ssa_form impl \<longleftrightarrow> distinct (concat (map dests (impl_instrs impl)))"

subsection \<open>The invariant of the iteration\<close>

text \<open>
  The instructions whose visit stores \<open>false\<close> whatever the map holds: constants, undefs,
  and a deref with a use that is not a texture instruction.
\<close>

fun never_divergent :: "nir_instr \<Rightarrow> bool" where
  "never_divergent (Load_const def_index) = True"
| "never_divergent (Ssa_undef def_index) = True"
| "never_divergent (Deref instr) = (\<exists>ty \<in> set (deref_uses instr). ty \<noteq> nir_instr_type_tex)"
| "never_divergent instr = False"

text \<open>No value defined by one of those instructions is marked divergent.\<close>

definition uniform_kept :: "nir_function_impl \<Rightarrow> bool list \<Rightarrow> bool" where
  "uniform_kept impl t \<longleftrightarrow>
     (\<forall>instr \<in> set (impl_instrs impl). never_divergent instr \<longrightarrow>
        (\<forall>d \<in> set (dests instr). d < length t \<longrightarrow> \<not> t ! d))"

text \<open>One map lies above another: same length, and every divergent entry stays so.\<close>

definition grows :: "bool list \<Rightarrow> bool list \<Rightarrow> bool" where
  "grows t u \<longleftrightarrow> length u = length t \<and> (\<forall>i < length t. t ! i \<longrightarrow> u ! i)"


subsection \<open>Example inputs\<close>

text \<open>
  A phi after an \<^verbatim>\<open>if\<close> whose condition is value 0, with one defined and one undefined
  operand, and the same phi with both operands defined.
\<close>

definition example_gamma_undef :: nir_phi_instr where
  "example_gamma_undef =
     \<lparr>phi_dest = 3,
      phi_srcs =
        [\<lparr>phi_src_index = 1, phi_src_is_undef = False, pred = 1,
          pred_ancestors = [nir_cf_node_if 0, nir_cf_node_function]\<rparr>,
         \<lparr>phi_src_index = 2, phi_src_is_undef = True, pred = 2,
          pred_ancestors = [nir_cf_node_if 0, nir_cf_node_function]\<rparr>],
      block_prev = Some (nir_cf_node_if 0), block_parent = nir_cf_node_function,
      loop_last_block = 0, loop_prev = None\<rparr>"

definition example_gamma :: nir_phi_instr where
  "example_gamma =
     \<lparr>phi_dest = 3,
      phi_srcs =
        [\<lparr>phi_src_index = 1, phi_src_is_undef = False, pred = 1,
          pred_ancestors = [nir_cf_node_if 0, nir_cf_node_function]\<rparr>,
         \<lparr>phi_src_index = 2, phi_src_is_undef = False, pred = 2,
          pred_ancestors = [nir_cf_node_if 0, nir_cf_node_function]\<rparr>],
      block_prev = Some (nir_cf_node_if 0), block_parent = nir_cf_node_function,
      loop_last_block = 0, loop_prev = None\<rparr>"

text \<open>
  A function of one block: a constant, an interpolated input, and an addition of the two.
\<close>

definition example_alu :: nir_instr where
  "example_alu =
     Alu \<lparr>alu_dest = 2, alu_op = nir_op_other 0,
          alu_src =
            [\<lparr>ssa_index = 0, ssa_num_components = 1,
              src_parent_instr = \<lparr>parent_type = nir_instr_type_alu, parent_op = nir_op_other 0,
                                   parent_src_index = [0, 1]\<rparr>,
              swizzle0 = 0\<rparr>,
             \<lparr>ssa_index = 1, ssa_num_components = 1,
              src_parent_instr = \<lparr>parent_type = nir_instr_type_alu, parent_op = nir_op_other 0,
                                   parent_src_index = [0, 1]\<rparr>,
              swizzle0 = 0\<rparr>],
          num_inputs = 2, input_sizes = [1, 1]\<rparr>"

definition example_input :: nir_instr where
  "example_input =
     Intrinsic \<lparr>intrinsic = nir_intrinsic_load_interpolated_input, has_dest = True,
                intrinsic_dest = 1, num_srcs = 0, intrinsic_src = []\<rparr>"

definition example_impl :: nir_function_impl where
  "example_impl = \<lparr>ssa_alloc = 3, impl_blocks = [[Load_const 0, example_input, example_alu]]\<rparr>"

section \<open>The low-level IR (aco_ir.h)\<close>

subsection \<open>Register classes\<close>

text \<open>
  \<^verbatim>\<open>RegClass\<close> is a C enum, so an object of that type holds any 32-bit value; the
  enumerators are the constants below (\<^verbatim>\<open>RegClass::b\<close> is \<open>RegClass_b\<close>, and so on).
\<close>

type_synonym RegClass = "32 word"

definition RegClass_b :: RegClass where "RegClass_b = 0"
definition RegClass_s1 :: RegClass where "RegClass_s1 = 1"
definition RegClass_s2 :: RegClass where "RegClass_s2 = 2"
definition RegClass_s3 :: RegClass where "RegClass_s3 = 3"
definition RegClass_s4 :: RegClass where "RegClass_s4 = 4"
definition RegClass_s8 :: RegClass where "RegClass_s8 = 8"
definition RegClass_s16 :: RegClass where "RegClass_s16 = 16"
definition RegClass_v1 :: RegClass where "RegClass_v1 = RegClass_s1 OR push_bit 5 1"
definition RegClass_v2 :: RegClass where "RegClass_v2 = RegClass_s2 OR push_bit 5 1"
definition RegClass_v3 :: RegClass where "RegClass_v3 = RegClass_s3 OR push_bit 5 1"
definition RegClass_v4 :: RegClass where "RegClass_v4 = RegClass_s4 OR push_bit 5 1"
definition RegClass_v6 :: RegClass where "RegClass_v6 = 6 OR push_bit 5 1"

datatype RegType = scc | sgpr | vgpr

definition typeOf :: "RegClass \<Rightarrow> RegType" where
  "typeOf rc = (if rc = RegClass_b then scc else if rc \<le> RegClass_s16 then sgpr else vgpr)"

definition sizeOf :: "RegClass \<Rightarrow> nat" where
  "sizeOf rc = unat (rc AND 0x1F)"

subsection \<open>Formats and opcodes\<close>

text \<open>\<^verbatim>\<open>enum class Format : std::uint16_t\<close>; \<^verbatim>\<open>Format::SOP1\<close> is \<open>Format_SOP1\<close>.\<close>

type_synonym Format = "16 word"

definition Format_PSEUDO :: Format where "Format_PSEUDO = 0"
definition Format_SOP1 :: Format where "Format_SOP1 = 1"
definition Format_SOP2 :: Format where "Format_SOP2 = 2"
definition Format_SOPK :: Format where "Format_SOPK = 3"
definition Format_SOPP :: Format where "Format_SOPP = 4"
definition Format_SOPC :: Format where "Format_SOPC = 5"
definition Format_SMEM :: Format where "Format_SMEM = 6"
definition Format_VINTRP :: Format where "Format_VINTRP = 7"
definition Format_DS :: Format where "Format_DS = 8"
definition Format_MTBUF :: Format where "Format_MTBUF = 9"
definition Format_MUBUF :: Format where "Format_MUBUF = 10"
definition Format_MIMG :: Format where "Format_MIMG = 11"
definition Format_EXP :: Format where "Format_EXP = 12"
definition Format_FLAT :: Format where "Format_FLAT = 13"
definition Format_GLOBAL :: Format where "Format_GLOBAL = 14"
definition Format_SCRATCH :: Format where "Format_SCRATCH = 15"
definition Format_PSEUDO_BRANCH :: Format where "Format_PSEUDO_BRANCH = 16"
definition Format_VOP1 :: Format where "Format_VOP1 = push_bit 8 1"
definition Format_VOP2 :: Format where "Format_VOP2 = push_bit 9 1"
definition Format_VOPC :: Format where "Format_VOPC = push_bit 10 1"
definition Format_VOP3B :: Format where "Format_VOP3B = push_bit 11 1"
definition Format_VOP3P :: Format where "Format_VOP3P = push_bit 12 1"
definition Format_VOP3A :: Format where "Format_VOP3A = push_bit 13 1"
definition Format_DPP :: Format where "Format_DPP = push_bit 14 1"
definition Format_SDWA :: Format where "Format_SDWA = push_bit 15 1"

text \<open>
  \<^verbatim>\<open>aco_opcode\<close> is generated into \<^verbatim>\<open>aco_opcodes.h\<close>, which is not among the sources:
  the opcodes that the modelled code names, and the others by number
  (\<^verbatim>\<open>aco_opcode::exp\<close> is \<open>aco_exp\<close>).
\<close>

datatype aco_opcode =
  p_phi | p_linear_phi | p_logical_end | p_spill | p_reload |
  s_cselect_b64 | s_mov_b64 | s_andn2_b64 | s_and_b64 | s_or_b64 |
  s_endpgm | aco_exp | other_opcode nat

subsection \<open>Temporaries, operands and definitions\<close>

record Temp =
  temp_id :: "32 word"
  reg_class :: RegClass

text \<open>\<^verbatim>\<open>PhysReg\<close> wraps an \<^verbatim>\<open>unsigned\<close>.\<close>

type_synonym PhysReg = "32 word"

definition m0 :: PhysReg where "m0 = 124"
definition vcc :: PhysReg where "vcc = 106"
definition exec :: PhysReg where "exec = 126"

text \<open>
  An \<^verbatim>\<open>Operand\<close>: the union \<^verbatim>\<open>data_\<close>, the register \<^verbatim>\<open>reg_\<close> and the five bits of
  \<^verbatim>\<open>control_\<close> that are used. In the union, \<^verbatim>\<open>i\<close> and \<^verbatim>\<open>temp.temp_id\<close> are the same
  word, which is \<open>data_i\<close>; the word after it is \<^verbatim>\<open>temp.reg_class\<close>. The members
  \<^verbatim>\<open>id_\<close> and \<^verbatim>\<open>reg_\<close> are \<open>temp_id\<close> and \<open>op_reg\<close> here.
\<close>

record Operand =
  data_i :: "32 word"
  data_reg_class :: RegClass
  op_reg :: PhysReg
  control_isTemp :: bool
  control_isFixed :: bool
  control_isConstant :: bool
  control_isKill :: bool
  control_isUndefined :: bool

text \<open>
  The constructors. \<^verbatim>\<open>control_\<close> starts all zero; \<^verbatim>\<open>data_\<close> and \<^verbatim>\<open>reg_\<close> start with
  whatever the storage holds, which is the argument \<open>g\<close>.
\<close>

definition setFixed :: "Operand \<Rightarrow> PhysReg \<Rightarrow> Operand" where
  "setFixed op reg = op\<lparr>control_isFixed := True, op_reg := reg\<rparr>"

definition fresh_operand :: "Operand \<Rightarrow> Operand" where
  "fresh_operand g =
     g\<lparr>control_isTemp := False, control_isFixed := False, control_isConstant := False,
       control_isKill := False, control_isUndefined := False\<rparr>"

definition Operand_temp :: "Operand \<Rightarrow> Temp \<Rightarrow> Operand" where
  "Operand_temp g r =
     (fresh_operand g)\<lparr>data_i := temp_id r, data_reg_class := reg_class r, control_isTemp := True\<rparr>"

definition Operand_const :: "Operand \<Rightarrow> 32 word \<Rightarrow> Operand" where
  "Operand_const g v =
     (let op = (fresh_operand g)\<lparr>data_i := v, control_isConstant := True\<rparr> in
      if v \<le> 64 then setFixed op (128 + v)
      else if v \<ge> 0xFFFFFFF0 then setFixed op (192 - v)
      else if v = 0x3f000000 then setFixed op 240
      else if v = 0xbf000000 then setFixed op 241
      else if v = 0x3f800000 then setFixed op 242
      else if v = 0xbf800000 then setFixed op 243
      else if v = 0x40000000 then setFixed op 244
      else if v = 0xc0000000 then setFixed op 245
      else if v = 0x40800000 then setFixed op 246
      else if v = 0xc0800000 then setFixed op 247
      else if v = 0x3e22f983 then setFixed op 248
      else setFixed op 255)"

definition Operand_undef :: "Operand \<Rightarrow> Operand" where
  "Operand_undef g = setFixed ((fresh_operand g)\<lparr>control_isUndefined := True\<rparr>) 128"

definition Operand_phys :: "Operand \<Rightarrow> PhysReg \<Rightarrow> RegClass \<Rightarrow> Operand" where
  "Operand_phys g reg type =
     setFixed ((fresh_operand g)\<lparr>data_i := 0, data_reg_class := type\<rparr>) reg"

definition isTemp :: "Operand \<Rightarrow> bool" where
  "isTemp op = control_isTemp op"

definition getTemp :: "Operand \<Rightarrow> Temp" where
  "getTemp op = \<lparr>temp_id = data_i op, reg_class = data_reg_class op\<rparr>"

definition tempId :: "Operand \<Rightarrow> 32 word" where
  "tempId op = data_i op"

definition regClass :: "Operand \<Rightarrow> RegClass" where
  "regClass op = data_reg_class op"

definition physReg :: "Operand \<Rightarrow> PhysReg" where
  "physReg op = op_reg op"

definition isConstant :: "Operand \<Rightarrow> bool" where
  "isConstant op = control_isConstant op"

definition isLiteral :: "Operand \<Rightarrow> bool" where
  "isLiteral op \<longleftrightarrow> isConstant op \<and> op_reg op = 255"

definition isUndefined :: "Operand \<Rightarrow> bool" where
  "isUndefined op = control_isUndefined op"

definition constantValue :: "Operand \<Rightarrow> 32 word" where
  "constantValue op = data_i op"

text \<open>A \<^verbatim>\<open>Definition\<close>: its temporary, its register and the three bits of \<^verbatim>\<open>control_\<close>.\<close>

record Definition =
  def_temp :: Temp
  def_reg :: PhysReg
  def_isFixed :: bool
  def_mustReuseInput :: bool
  def_hasHint :: bool

definition Definition_temp :: "Definition \<Rightarrow> Temp \<Rightarrow> Definition" where
  "Definition_temp g tmp =
     g\<lparr>def_temp := tmp, def_isFixed := False, def_mustReuseInput := False, def_hasHint := False\<rparr>"

definition Definition_phys :: "Definition \<Rightarrow> PhysReg \<Rightarrow> RegClass \<Rightarrow> Definition" where
  "Definition_phys g reg type =
     g\<lparr>def_temp := \<lparr>temp_id = 0, reg_class = type\<rparr>, def_reg := reg, def_isFixed := True,
       def_mustReuseInput := False, def_hasHint := False\<rparr>"

subsection \<open>Instructions, blocks and programs\<close>

text \<open>
  The fields that the structs derived from \<^verbatim>\<open>Instruction\<close> add. A \<^verbatim>\<open>static_cast\<close> of
  an instruction to a derived struct it was not created as reads outside the object; the
  model returns \<open>None\<close> there.
\<close>

datatype payload =
  No_payload
| SOPK_payload "16 word"
| SOPP_payload "32 word" "nat option"
| SMEM_payload bool bool
| VOP3A_payload "bool \<times> bool \<times> bool" "bool \<times> bool \<times> bool" bool "32 word"
    "bool \<times> bool \<times> bool"
| DPP_payload "16 word" "8 word" "8 word" "bool \<times> bool" "bool \<times> bool" bool
| Interp_payload "32 word" "32 word"
| DS_payload "16 word" "8 word" bool
| MUBUF_payload "32 word" bool bool bool bool bool bool
| MIMG_payload "32 word" bool bool bool bool bool bool bool
| Export_payload "32 word" "32 word" bool bool bool

record Instruction =
  opcode :: aco_opcode
  format :: Format
  operands :: "Operand list"
  definitions :: "Definition list"
  derived :: payload

text \<open>
  A block: its index, its instructions and the two predecessor lists, the predecessors
  named by their position in the program. A program: its blocks and the id allocator.
\<close>

record Block =
  index :: nat
  instructions :: "Instruction list"
  logical_predecessors :: "nat list"
  linear_predecessors :: "nat list"

record Program =
  blocks :: "Block list"
  allocationID :: "32 word"

definition allocateId :: "Program \<Rightarrow> 32 word \<times> Program" where
  "allocateId program = (allocationID program, program\<lparr>allocationID := allocationID program + 1\<rparr>)"

definition getOperand :: "Instruction \<Rightarrow> nat \<Rightarrow> Operand option" where
  "getOperand instr i = nth_opt (operands instr) i"

definition getDefinition :: "Instruction \<Rightarrow> nat \<Rightarrow> Definition option" where
  "getDefinition instr i = nth_opt (definitions instr) i"

definition operandCount :: "Instruction \<Rightarrow> nat" where
  "operandCount instr = length (operands instr)"

definition definitionCount :: "Instruction \<Rightarrow> nat" where
  "definitionCount instr = length (definitions instr)"

definition isDPP :: "Instruction \<Rightarrow> bool" where
  "isDPP instr \<longleftrightarrow> format instr AND Format_DPP \<noteq> 0"

text \<open>
  \<^verbatim>\<open>create_instruction\<close> takes the storage of the instruction, its operands and its
  definitions from \<^verbatim>\<open>calloc\<close>: they are all zero.
\<close>

definition zero_operand :: Operand where
  "zero_operand =
     \<lparr>data_i = 0, data_reg_class = 0, op_reg = 0, control_isTemp = False,
      control_isFixed = False, control_isConstant = False, control_isKill = False,
      control_isUndefined = False\<rparr>"

definition zero_definition :: Definition where
  "zero_definition =
     \<lparr>def_temp = \<lparr>temp_id = 0, reg_class = 0\<rparr>, def_reg = 0, def_isFixed = False,
      def_mustReuseInput = False, def_hasHint = False\<rparr>"

definition create_instruction :: "aco_opcode \<Rightarrow> Format \<Rightarrow> nat \<Rightarrow> nat \<Rightarrow> Instruction" where
  "create_instruction op fmt num_operands num_definitions =
     \<lparr>opcode = op, format = fmt, operands = replicate num_operands zero_operand,
      definitions = replicate num_definitions zero_definition, derived = No_payload\<rparr>"

section \<open>The assembler (emit_instruction, fix_exports, fix_branches, emit_program)\<close>

text \<open>
  \<^verbatim>\<open>asm_context\<close>: the branches to patch, each with the index of its word in the output,
  and the offset of every block. \<^verbatim>\<open>branches\<close> is a \<^verbatim>\<open>std::map\<close>: it is kept in key
  order, and \<^verbatim>\<open>insert\<close> leaves an existing key alone.
\<close>

record asm_context =
  branches :: "(nat \<times> Instruction) list"
  block_offset :: "int list"

definition branches_insert ::
  "(nat \<times> Instruction) list \<Rightarrow> nat \<Rightarrow> Instruction \<Rightarrow> (nat \<times> Instruction) list" where
  "branches_insert m k v =
     (if k \<in> fst ` set m then m
      else filter (\<lambda>e. fst e < k) m @ [(k, v)] @ filter (\<lambda>e. \<not> fst e < k) m)"

text \<open>
  \<^verbatim>\<open>opcode_infos[(int)instr->opcode].opcode\<close> comes from a generated table that is not
  among the sources; it is the parameter \<open>hw\<close> of the functions below.
\<close>

definition operand_reg :: "Instruction \<Rightarrow> nat \<Rightarrow> 32 word option" where
  "operand_reg instr i = map_option physReg (getOperand instr i)"

definition definition_reg :: "Instruction \<Rightarrow> nat \<Rightarrow> 32 word option" where
  "definition_reg instr i = map_option def_reg (getDefinition instr i)"

definition word_of_flag :: "bool \<Rightarrow> 32 word" where
  "word_of_flag c = (if c then 1 else 0)"

text \<open>
  The \<^verbatim>\<open>switch\<close> of \<^verbatim>\<open>emit_instruction\<close>. The result carries the context, the output,
  and whether the case left the switch by \<^verbatim>\<open>break\<close> (\<open>True\<close>) or the function by
  \<^verbatim>\<open>return\<close> (\<open>False\<close>). \<open>self\<close> stands for the recursive call in the DPP case.
\<close>

definition emit_switch ::
  "(asm_context \<Rightarrow> 32 word list \<Rightarrow> Instruction \<Rightarrow> (asm_context \<times> 32 word list) option) \<Rightarrow>
   (aco_opcode \<Rightarrow> 32 word) \<Rightarrow> Operand \<Rightarrow>
   asm_context \<Rightarrow> 32 word list \<Rightarrow> Instruction \<Rightarrow> (asm_context \<times> 32 word list \<times> bool) option" where
  "emit_switch self hw g ctx out instr =
     (if format instr = Format_SOP2 then do {
        d \<leftarrow> (if definitionCount instr \<noteq> 0
              then map_option (push_bit 16) (definition_reg instr 0) else Some 0);
        o1 \<leftarrow> (if operandCount instr \<ge> 2
               then map_option (push_bit 8) (operand_reg instr 1) else Some 0);
        o0 \<leftarrow> (if operandCount instr \<noteq> 0 then operand_reg instr 0 else Some 0);
        Some (ctx, out @ [push_bit 30 2 OR push_bit 23 (hw (opcode instr)) OR d OR o1 OR o0], True) }
      else if format instr = Format_SOPK then
        (case derived instr of
           SOPK_payload imm \<Rightarrow> do {
             r \<leftarrow> (if definitionCount instr \<noteq> 0 \<and>
                       map_option (\<lambda>d. reg_class (def_temp d)) (getDefinition instr 0) \<noteq>
                         Some RegClass_b
                    then map_option (push_bit 16) (definition_reg instr 0)
                    else if operandCount instr \<noteq> 0 \<and>
                         map_option regClass (getOperand instr 0) \<noteq> Some RegClass_b
                    then map_option (push_bit 16) (operand_reg instr 0)
                    else Some 0);
             Some (ctx, out @ [push_bit 28 11 OR push_bit 23 (hw (opcode instr)) OR r OR ucast imm],
                   True) }
         | _ \<Rightarrow> None)
      else if format instr = Format_SOP1 then do {
        d \<leftarrow> (if definitionCount instr \<noteq> 0
              then map_option (push_bit 16) (definition_reg instr 0) else Some 0);
        o0 \<leftarrow> (if operandCount instr \<noteq> 0 then operand_reg instr 0 else Some 0);
        Some (ctx, out @ [push_bit 23 381 OR d OR push_bit 8 (hw (opcode instr)) OR o0], True) }
      else if format instr = Format_SOPC then do {
        o1 \<leftarrow> (if operandCount instr = 2
               then map_option (push_bit 8) (operand_reg instr 1) else Some 0);
        o0 \<leftarrow> (if operandCount instr \<noteq> 0 then operand_reg instr 0 else Some 0);
        Some (ctx, out @ [push_bit 23 382 OR push_bit 16 (hw (opcode instr)) OR o1 OR o0], True) }
      else if format instr = Format_SOPP then
        (case derived instr of
           SOPP_payload imm block \<Rightarrow>
             Some (if block \<noteq> None
                   then ctx\<lparr>branches := branches_insert (branches ctx) (length out) instr\<rparr>
                   else ctx,
                   out @ [push_bit 23 383 OR push_bit 16 (hw (opcode instr)) OR
                          ucast (ucast imm :: 16 word)],
                   True)
         | _ \<Rightarrow> None)
      else if format instr = Format_SMEM then
        (case derived instr of
           SMEM_payload glc nv \<Rightarrow> do {
             op1 \<leftarrow> getOperand instr 1;
             d \<leftarrow> (if definitionCount instr \<noteq> 0
                   then map_option (push_bit 6) (definition_reg instr 0) else Some 0);
             o0 \<leftarrow> operand_reg instr 0;
             Some (ctx,
                   out @ [push_bit 26 48 OR push_bit 18 (hw (opcode instr)) OR
                          (if isConstant op1 then push_bit 17 1 else 0) OR
                          (if glc then push_bit 16 1 else 0) OR d OR drop_bit 1 o0,
                          if isConstant op1 then constantValue op1 else physReg op1],
                   False) }
         | _ \<Rightarrow> None)
      else if format instr = Format_VOP2 then do {
        d \<leftarrow> definition_reg instr 0;
        o1 \<leftarrow> operand_reg instr 1;
        o0 \<leftarrow> operand_reg instr 0;
        Some (ctx, out @ [push_bit 25 (hw (opcode instr)) OR push_bit 17 (0xFF AND d) OR
                          push_bit 9 (0xFF AND o1) OR o0], True) }
      else if format instr = Format_VOP1 then do {
        d \<leftarrow> definition_reg instr 0;
        o0 \<leftarrow> operand_reg instr 0;
        Some (ctx, out @ [push_bit 25 63 OR push_bit 17 (0xFF AND d) OR
                          push_bit 9 (hw (opcode instr)) OR o0], True) }
      else if format instr = Format_VOPC then do {
        o1 \<leftarrow> operand_reg instr 1;
        o0 \<leftarrow> operand_reg instr 0;
        Some (ctx, out @ [push_bit 25 62 OR push_bit 17 (hw (opcode instr)) OR
                          push_bit 9 (0xFF AND o1) OR o0], True) }
      else if format instr = Format_VINTRP then
        (case derived instr of
           Interp_payload attribute component \<Rightarrow> do {
             d \<leftarrow> definition_reg instr 0;
             o0 \<leftarrow> operand_reg instr 0;
             Some (ctx, out @ [push_bit 26 53 OR push_bit 18 (0xFF AND d) OR
                               push_bit 16 (hw (opcode instr)) OR push_bit 10 attribute OR
                               push_bit 8 component OR (0xFF AND o0)], True) }
         | _ \<Rightarrow> None)
      else if format instr = Format_DS then
        (case derived instr of
           DS_payload offset0 offset1 gds \<Rightarrow> do {
             d \<leftarrow> (if definitionCount instr \<noteq> 0 then definition_reg instr 0 else Some 0);
             o2 \<leftarrow> (if operandCount instr \<ge> 3 then operand_reg instr 2 else Some 0);
             o1 \<leftarrow> (if operandCount instr \<ge> 2 then operand_reg instr 1 else Some 0);
             o0 \<leftarrow> operand_reg instr 0;
             Some (ctx,
                   out @ [push_bit 26 54 OR push_bit 17 (hw (opcode instr)) OR
                          push_bit 16 (word_of_flag gds) OR
                          (0xFF AND push_bit 8 (scast offset1)) OR (0xFFFF AND scast offset0),
                          push_bit 24 (0xFF AND d) OR push_bit 16 (0xFF AND o2) OR
                          push_bit 8 (0xFF AND o1) OR (0xFF AND o0)],
                   True) }
         | _ \<Rightarrow> None)
      else if format instr = Format_MUBUF then
        (case derived instr of
           MUBUF_payload offset offen idxen glc slc tfe lds \<Rightarrow> do {
             o2 \<leftarrow> operand_reg instr 2;
             o1 \<leftarrow> operand_reg instr 1;
             r \<leftarrow> (if operandCount instr > 3 then operand_reg instr 3 else definition_reg instr 0);
             o0 \<leftarrow> operand_reg instr 0;
             Some (ctx,
                   out @ [push_bit 26 56 OR push_bit 18 (hw (opcode instr)) OR
                          push_bit 17 (word_of_flag slc) OR push_bit 16 (word_of_flag lds) OR
                          push_bit 14 (word_of_flag glc) OR push_bit 13 (word_of_flag idxen) OR
                          push_bit 12 (word_of_flag offen) OR (0x0FFF AND offset),
                          push_bit 24 o2 OR push_bit 23 (word_of_flag tfe) OR
                          push_bit 16 (drop_bit 2 o1) OR push_bit 8 (0xFF AND r) OR (0xFF AND o0)],
                   True) }
         | _ \<Rightarrow> None)
      else if format instr = Format_MIMG then
        (case derived instr of
           MIMG_payload dmask unrm glc slc tfe da lwe r128 \<Rightarrow> do {
             o0 \<leftarrow> operand_reg instr 0;
             d \<leftarrow> definition_reg instr 0;
             o1 \<leftarrow> operand_reg instr 1;
             o2 \<leftarrow> (if operandCount instr > 2
                    then map_option (\<lambda>r. push_bit 21 (0x1F AND drop_bit 2 r)) (operand_reg instr 2)
                    else Some 0);
             Some (ctx,
                   out @ [push_bit 26 60 OR (if slc then push_bit 25 1 else 0) OR
                          push_bit 18 (hw (opcode instr)) OR (if lwe then push_bit 17 1 else 0) OR
                          (if tfe then push_bit 16 1 else 0) OR (if r128 then push_bit 15 1 else 0) OR
                          (if da then push_bit 14 1 else 0) OR (if glc then push_bit 13 1 else 0) OR
                          (if unrm then push_bit 12 1 else 0) OR push_bit 8 (0xF AND dmask),
                          (0xFF AND o0) OR push_bit 8 (0xFF AND d) OR
                          push_bit 16 (0x1F AND drop_bit 2 o1) OR o2],
                   True) }
         | _ \<Rightarrow> None)
      else if format instr = Format_EXP then
        (case derived instr of
           Export_payload enabled_mask dest compressed done valid_mask \<Rightarrow> do {
             o0 \<leftarrow> operand_reg instr 0;
             o1 \<leftarrow> operand_reg instr 1;
             o2 \<leftarrow> operand_reg instr 2;
             o3 \<leftarrow> operand_reg instr 3;
             Some (ctx,
                   out @ [push_bit 26 49 OR (if valid_mask then push_bit 12 1 else 0) OR
                          (if done then push_bit 11 1 else 0) OR
                          (if compressed then push_bit 10 1 else 0) OR
                          push_bit 4 dest OR enabled_mask,
                          (0xFF AND o0) OR push_bit 8 (0xFF AND o1) OR
                          push_bit 16 (0xFF AND o2) OR push_bit 24 (0xFF AND o3)],
                   True) }
         | _ \<Rightarrow> None)
      else if format instr = Format_PSEUDO then Some (ctx, out, True)
      else if format instr AND Format_VOP3A \<noteq> 0 then
        (case derived instr of
           VOP3A_payload abs3 opsel clamp omod neg3 \<Rightarrow>
             if operandCount instr > 4 then None
             else do {
               d \<leftarrow> definition_reg instr 0;
               let op = (if format instr AND Format_VOP2 \<noteq> 0 then hw (opcode instr) + 0x100
                         else if format instr AND Format_VOP1 \<noteq> 0 then hw (opcode instr) + 0x140
                         else if format instr AND Format_VOPC \<noteq> 0 then hw (opcode instr) + 0x0
                         else if format instr AND Format_VINTRP \<noteq> 0 then hw (opcode instr) + 0x270
                         else hw (opcode instr));
               Some (ctx,
                     out @ [push_bit 26 52 OR push_bit 16 op OR push_bit 15 (word_of_flag clamp) OR
                            push_bit 8 (word_of_flag (fst abs3)) OR
                            push_bit 9 (word_of_flag (fst (snd abs3))) OR
                            push_bit 10 (word_of_flag (snd (snd abs3))) OR (0xFF AND d),
                            foldl (OR) 0
                              (map (\<lambda>(i, x). push_bit (i * 9) (physReg x))
                                 (enumerate 0 (operands instr))) OR
                            push_bit 27 omod OR
                            push_bit 29 (word_of_flag (fst neg3)) OR
                            push_bit 30 (word_of_flag (fst (snd neg3))) OR
                            push_bit 31 (word_of_flag (snd (snd neg3)))],
                     False) }
         | _ \<Rightarrow> None)
      else if isDPP instr then do {
        dpp_op \<leftarrow> getOperand instr 0;
        let instr' = instr\<lparr>operands := (operands instr)[0 := Operand_phys g 250 RegClass_v1],
                           format := format instr AND NOT Format_DPP\<rparr>;
        (ctx', out') \<leftarrow> self ctx out instr';
        case derived instr of
          DPP_payload dpp_ctrl row_mask bank_mask abs2 neg2 bound_ctrl \<Rightarrow>
            Some (ctx',
                  out' @ [push_bit 28 (0xF AND ucast row_mask) OR
                          push_bit 24 (0xF AND ucast bank_mask) OR
                          push_bit 23 (word_of_flag (snd abs2)) OR
                          push_bit 22 (word_of_flag (snd neg2)) OR
                          push_bit 21 (word_of_flag (fst abs2)) OR
                          push_bit 20 (word_of_flag (fst neg2)) OR
                          push_bit 19 (word_of_flag bound_ctrl) OR
                          push_bit 8 (ucast dpp_ctrl) OR (0xFF AND physReg dpp_op)],
                  False)
        | _ \<Rightarrow> None }
      else None)"

text \<open>The loop \<^verbatim>\<open>/* append literal dword */\<close>: the first literal operand, if any.\<close>

definition append_literal :: "32 word list \<Rightarrow> Instruction \<Rightarrow> 32 word list" where
  "append_literal out instr =
     (case find isLiteral (operands instr) of
        None \<Rightarrow> out
      | Some op \<Rightarrow> out @ [constantValue op])"

definition emit_with ::
  "(asm_context \<Rightarrow> 32 word list \<Rightarrow> Instruction \<Rightarrow> (asm_context \<times> 32 word list) option) \<Rightarrow>
   (aco_opcode \<Rightarrow> 32 word) \<Rightarrow> Operand \<Rightarrow>
   asm_context \<Rightarrow> 32 word list \<Rightarrow> Instruction \<Rightarrow> (asm_context \<times> 32 word list) option" where
  "emit_with self hw g ctx out instr = do {
     (ctx', out', by_break) \<leftarrow> emit_switch self hw g ctx out instr;
     Some (ctx', if by_break then append_literal out' instr else out') }"

text \<open>
  \<^verbatim>\<open>emit_instruction\<close>. The DPP case calls it again on the instruction with its DPP bit
  cleared, so that call never reaches the DPP case: two levels are the whole recursion.
\<close>

definition emit_instruction ::
  "(aco_opcode \<Rightarrow> 32 word) \<Rightarrow> Operand \<Rightarrow>
   asm_context \<Rightarrow> 32 word list \<Rightarrow> Instruction \<Rightarrow> (asm_context \<times> 32 word list) option" where
  "emit_instruction hw g = emit_with (emit_with (\<lambda>ctx out instr. None) hw g) hw g"

fun emit_block ::
  "(aco_opcode \<Rightarrow> 32 word) \<Rightarrow> Operand \<Rightarrow>
   asm_context \<Rightarrow> 32 word list \<Rightarrow> Instruction list \<Rightarrow> (asm_context \<times> 32 word list) option" where
  "emit_block hw g ctx out [] = Some (ctx, out)"
| "emit_block hw g ctx out (instr # instrs) = do {
     (ctx', out') \<leftarrow> emit_instruction hw g ctx out instr;
     emit_block hw g ctx' out' instrs }"

text \<open>
  \<^verbatim>\<open>fix_exports\<close>, one block: the search backwards from the last instruction but one.
  \<open>Some (Some instrs)\<close> is the block with its export marked, \<open>Some None\<close> is no export
  found before the search stops.
\<close>

fun find_export :: "Instruction list \<Rightarrow> Instruction list option option" where
  "find_export [] = Some None"
| "find_export (instr # rest) =
     (if format instr = Format_EXP then
        (case derived instr of
           Export_payload enabled_mask dest compressed done valid_mask \<Rightarrow>
             Some (Some (instr\<lparr>derived := Export_payload enabled_mask dest compressed True True\<rparr>
                         # rest))
         | _ \<Rightarrow> None)
      else if definitionCount instr \<noteq> 0 \<and> map_option def_reg (getDefinition instr 0) = Some exec
      then Some None
      else if opcode instr = s_endpgm then Some None
      else map_option (map_option ((#) instr)) (find_export rest))"

text \<open>The null export that \<^verbatim>\<open>fix_exports\<close> creates.\<close>

definition null_export :: "Operand \<Rightarrow> Instruction" where
  "null_export g =
     \<lparr>opcode = aco_exp, format = Format_EXP,
      operands = replicate 4 (Operand_undef g), definitions = [],
      derived = Export_payload 0 9 False True True\<rparr>"

text \<open>
  \<^verbatim>\<open>fix_exports\<close> over the blocks in reverse order: \<open>passed\<close> are the blocks already passed
  (later in the program), \<open>todo\<close> the remaining ones, last block first. A block with no
  instruction makes \<^verbatim>\<open>++it\<close> step past \<^verbatim>\<open>rend()\<close>.
\<close>

fun fix_exports_blocks :: "Operand \<Rightarrow> Block list \<Rightarrow> Block list \<Rightarrow> Block list option" where
  "fix_exports_blocks g [] passed = Some passed"
| "fix_exports_blocks g (block # todo) passed =
     (case rev (instructions block) of
        [] \<Rightarrow> None
      | final # before \<Rightarrow>
          (case find_export before of
             None \<Rightarrow> None
           | Some (Some before') \<Rightarrow>
               Some (rev todo @ block\<lparr>instructions := rev (final # before')\<rparr> # passed)
           | Some None \<Rightarrow>
               fix_exports_blocks g todo
                 (block\<lparr>instructions := rev before @ [null_export g, final]\<rparr> # passed)))"

definition fix_exports :: "Operand \<Rightarrow> Program \<Rightarrow> Program option" where
  "fix_exports g program =
     map_option (\<lambda>bs. program\<lparr>blocks := bs\<rparr>) (fix_exports_blocks g (rev (blocks program)) [])"

text \<open>
  \<^verbatim>\<open>fix_branches\<close>: for every recorded branch, \<^verbatim>\<open>int offset\<close> is the target block's
  offset minus the branch's index minus one, and its conversion to \<^verbatim>\<open>uint16_t\<close> is
  or-ed into the word at the branch's index.
\<close>

fun fix_branches_list ::
  "int list \<Rightarrow> (nat \<times> Instruction) list \<Rightarrow> 32 word list \<Rightarrow> 32 word list option" where
  "fix_branches_list offsets [] out = Some out"
| "fix_branches_list offsets ((first, second) # rest) out =
     (case derived second of
        SOPP_payload imm (Some target) \<Rightarrow> do {
          target_offset \<leftarrow> nth_opt offsets target;
          word \<leftarrow> nth_opt out first;
          let offset = target_offset - int first - 1;
          fix_branches_list offsets rest
            (out[first := word OR ucast (word_of_int offset :: 16 word)]) }
      | _ \<Rightarrow> None)"

definition fix_branches :: "asm_context \<Rightarrow> 32 word list \<Rightarrow> 32 word list option" where
  "fix_branches ctx out = fix_branches_list (block_offset ctx) (branches ctx) out"

text \<open>
  The loop of \<^verbatim>\<open>emit_program\<close> over the blocks: the block's offset is stored at
  \<^verbatim>\<open>block->index\<close>, then the block is emitted.
\<close>

fun emit_blocks ::
  "(aco_opcode \<Rightarrow> 32 word) \<Rightarrow> Operand \<Rightarrow>
   asm_context \<Rightarrow> 32 word list \<Rightarrow> Block list \<Rightarrow> (asm_context \<times> 32 word list) option" where
  "emit_blocks hw g ctx out [] = Some (ctx, out)"
| "emit_blocks hw g ctx out (block # rest) =
     (if index block < length (block_offset ctx) then do {
        (ctx', out') \<leftarrow>
          emit_block hw g (ctx\<lparr>block_offset := (block_offset ctx)[index block := int (length out)]\<rparr>)
            out (instructions block);
        emit_blocks hw g ctx' out' rest }
      else None)"

definition emit_program ::
  "(aco_opcode \<Rightarrow> 32 word) \<Rightarrow> Operand \<Rightarrow> Program \<Rightarrow> 32 word list option" where
  "emit_program hw g program = do {
     program' \<leftarrow> fix_exports g program;
     (ctx, out) \<leftarrow>
       emit_blocks hw g \<lparr>branches = [], block_offset = replicate (length (blocks program)) 0\<rparr> []
         (blocks program');
     fix_branches ctx out }"

subsection \<open>Notions used to state the assembler's properties\<close>

text \<open>
  The constants with a dedicated inline encoding, as the specification lists them: the
  integers 0 to 64, the integers -16 to -1 in two's complement, and the IEEE single
  patterns of 0.5, -0.5, 1.0, -1.0, 2.0, -2.0, 4.0, -4.0 and 1/(2*pi).
\<close>

definition inline_constant :: "32 word \<Rightarrow> bool" where
  "inline_constant v \<longleftrightarrow>
     v \<le> 64 \<or> 0xFFFFFFF0 \<le> v \<or>
     v \<in> {0x3f000000, 0xbf000000, 0x3f800000, 0xbf800000, 0x40000000, 0xc0000000,
          0x40800000, 0xc0800000, 0x3e22f983}"

text \<open>The formats whose case in \<^verbatim>\<open>emit_instruction\<close> ends in \<^verbatim>\<open>break\<close> after an encoding.\<close>

definition literal_formats :: "Format set" where
  "literal_formats =
     {Format_SOP2, Format_SOPK, Format_SOP1, Format_SOPC, Format_SOPP, Format_VOP2, Format_VOP1,
      Format_VOPC, Format_VINTRP, Format_DS, Format_MUBUF, Format_MIMG, Format_EXP}"






subsection \<open>Example instructions and programs\<close>

text \<open>A table of hardware opcodes.\<close>

definition example_hw :: "aco_opcode \<Rightarrow> 32 word" where
  "example_hw op = (case op of s_endpgm \<Rightarrow> 1 | other_opcode n \<Rightarrow> of_nat n | _ \<Rightarrow> 0)"

definition empty_context :: "nat \<Rightarrow> asm_context" where
  "empty_context n = \<lparr>branches = [], block_offset = replicate n 0\<rparr>"

text \<open>
  A scalar move of the literal \<open>0x12345678\<close>, and a VOP2 instruction in VOP3A encoding
  with the same literal as first operand.
\<close>

definition example_sop1 :: Instruction where
  "example_sop1 =
     \<lparr>opcode = other_opcode 0, format = Format_SOP1,
      operands = [Operand_const zero_operand 0x12345678],
      definitions = [Definition_phys zero_definition 0 RegClass_s1],
      derived = No_payload\<rparr>"

definition example_vop3a :: Instruction where
  "example_vop3a =
     \<lparr>opcode = other_opcode 0, format = Format_VOP2 OR Format_VOP3A,
      operands = [Operand_const zero_operand 0x12345678,
                  Operand_phys zero_operand 257 RegClass_v1],
      definitions = [Definition_phys zero_definition 256 RegClass_v1],
      derived = VOP3A_payload (False, False, False) (False, False, False) False 0
                  (False, False, False)\<rparr>"

text \<open>
  A VOP2 instruction with a DPP operand and the literal \<open>0x12345678\<close> as its second
  operand, and the instruction that the DPP case emits first.
\<close>

definition example_dpp :: Instruction where
  "example_dpp =
     \<lparr>opcode = other_opcode 0, format = Format_VOP2 OR Format_DPP,
      operands = [Operand_phys zero_operand 257 RegClass_v1,
                  Operand_const zero_operand 0x12345678],
      definitions = [Definition_phys zero_definition 256 RegClass_v1],
      derived = DPP_payload 0 15 15 (False, False) (False, False) False\<rparr>"

definition without_dpp :: "Operand \<Rightarrow> Instruction \<Rightarrow> Instruction" where
  "without_dpp g instr =
     instr\<lparr>operands := (operands instr)[0 := Operand_phys g 250 RegClass_v1],
           format := format instr AND NOT Format_DPP\<rparr>"

text \<open>
  A program of two blocks: a branch to block 1 whose immediate field holds \<open>imm\<close>,
  followed by one more scalar instruction; then an export and the end of the program.
\<close>

definition example_branch :: "32 word \<Rightarrow> Instruction" where
  "example_branch imm =
     \<lparr>opcode = other_opcode 2, format = Format_SOPP, operands = [], definitions = [],
      derived = SOPP_payload imm (Some 1)\<rparr>"

definition example_nop :: Instruction where
  "example_nop =
     \<lparr>opcode = other_opcode 0, format = Format_SOPP, operands = [], definitions = [],
      derived = SOPP_payload 0 None\<rparr>"

definition example_endpgm :: Instruction where
  "example_endpgm =
     \<lparr>opcode = s_endpgm, format = Format_SOPP, operands = [], definitions = [],
      derived = SOPP_payload 0 None\<rparr>"

definition example_export :: Instruction where
  "example_export =
     \<lparr>opcode = aco_exp, format = Format_EXP,
      operands = [Operand_undef zero_operand, Operand_undef zero_operand,
                  Operand_undef zero_operand, Operand_undef zero_operand],
      definitions = [],
      derived = Export_payload 15 0 False False False\<rparr>"

definition example_program :: "32 word \<Rightarrow> Program" where
  "example_program imm =
     \<lparr>blocks =
        [\<lparr>index = 0, instructions = [example_branch imm, example_nop],
          logical_predecessors = [], linear_predecessors = []\<rparr>,
         \<lparr>index = 1, instructions = [example_export, example_endpgm],
          logical_predecessors = [0], linear_predecessors = [0]\<rparr>],
      allocationID = 1\<rparr>"

section \<open>Spill slot assignment (assign_spill_slots)\<close>

text \<open>
  The two members of \<^verbatim>\<open>spill_ctx\<close> that slot assignment reads: for every spill id its
  register class and the set of ids it interferes with, and the affinity pairs.
\<close>

record spill_ctx =
  interferences :: "(RegClass \<times> nat set) list"
  affinities :: "(nat \<times> nat) list"

text \<open>
  The locals of \<^verbatim>\<open>assign_spill_slots\<close>: the two slot maps, \<^verbatim>\<open>is_assigned\<close>, and the
  interference set of every slot.
\<close>

record slot_state =
  sgpr_slot :: "nat \<rightharpoonup> nat"
  vgpr_slot :: "nat \<rightharpoonup> nat"
  is_assigned :: "bool list"
  spill_slot_interferences :: "nat set list"

text \<open>
  The first loop: every affinity pair merges the interference sets of its two ids, first
  into the one, then back into the other.
\<close>

fun merge_affinities ::
  "(RegClass \<times> nat set) list \<Rightarrow> (nat \<times> nat) list \<Rightarrow> (RegClass \<times> nat set) list option" where
  "merge_affinities I [] = Some I"
| "merge_affinities I ((first, second) # pairs) =
     (if first = second then None
      else if \<not> (first < length I \<and> second < length I) then None
      else
        let I1 = I[first := (fst (I ! first), snd (I ! first) \<union> snd (I ! second))];
            I2 = I1[second := (fst (I1 ! second), snd (I1 ! second) \<union> snd (I1 ! first))]
        in merge_affinities I2 pairs)"

text \<open>
  The loop \<^verbatim>\<open>/* check interferences */\<close> over the \<open>n\<close> slots from \<open>i\<close> on: it appends
  an empty set when \<open>i\<close> is the size of \<^verbatim>\<open>spill_slot_interferences\<close>, and reads entry
  \<open>i\<close>. \<open>vec\<close> is true in the loop for vector ids, whose test also rejects a slot in
  another group of 64 than \<open>slot_idx\<close>.
\<close>

fun check_interferences ::
  "bool \<Rightarrow> nat \<Rightarrow> nat \<Rightarrow> nat \<Rightarrow> nat \<Rightarrow> nat set list \<Rightarrow> (bool \<times> nat set list) option" where
  "check_interferences vec sid slot_idx i 0 ssi = Some (False, ssi)"
| "check_interferences vec sid slot_idx i (Suc n) ssi =
     (if i > length ssi then None
      else
        let ssi' = (if i = length ssi then ssi @ [{}] else ssi) in
        if sid \<in> ssi' ! i \<or> (vec \<and> i div 64 \<noteq> slot_idx div 64) then Some (True, ssi')
        else check_interferences vec sid slot_idx (i + 1) n ssi')"

text \<open>The loop that adds the interferences of an assigned id to each of its slots.\<close>

fun add_interferences :: "nat set \<Rightarrow> nat \<Rightarrow> nat \<Rightarrow> nat set list \<Rightarrow> nat set list option" where
  "add_interferences ids i 0 ssi = Some ssi"
| "add_interferences ids i (Suc n) ssi =
     (if i < length ssi then add_interferences ids (i + 1) n (ssi[i := ssi ! i \<union> ids])
      else None)"

text \<open>
  The \<^verbatim>\<open>for\<close> loop over the spill ids at one \<open>slot_idx\<close>, with the flag \<^verbatim>\<open>done\<close>.
\<close>

fun assign_ids ::
  "bool \<Rightarrow> (RegClass \<times> nat set) list \<Rightarrow> nat \<Rightarrow> nat list \<Rightarrow> slot_state \<Rightarrow> bool \<Rightarrow>
   (slot_state \<times> bool) option" where
  "assign_ids vec I slot_idx [] st finished = Some (st, finished)"
| "assign_ids vec I slot_idx (sid # ids) st finished =
     (if \<not> (sid < length (is_assigned st) \<and> sid < length I) then None
      else if is_assigned st ! sid then assign_ids vec I slot_idx ids st finished
      else if typeOf (fst (I ! sid)) \<noteq> (if vec then vgpr else sgpr)
      then assign_ids vec I slot_idx ids st finished
      else do {
        (interferes, ssi) \<leftarrow>
          check_interferences vec sid slot_idx slot_idx (sizeOf (fst (I ! sid)))
            (spill_slot_interferences st);
        if interferes
        then assign_ids vec I slot_idx ids (st\<lparr>spill_slot_interferences := ssi\<rparr>) False
        else do {
          ssi' \<leftarrow> add_interferences (snd (I ! sid)) slot_idx (sizeOf (fst (I ! sid))) ssi;
          assign_ids vec I slot_idx ids
            (if vec
             then st\<lparr>vgpr_slot := (vgpr_slot st)(sid \<mapsto> slot_idx),
                     is_assigned := (is_assigned st)[sid := True],
                     spill_slot_interferences := ssi'\<rparr>
             else st\<lparr>sgpr_slot := (sgpr_slot st)(sid \<mapsto> slot_idx),
                     is_assigned := (is_assigned st)[sid := True],
                     spill_slot_interferences := ssi'\<rparr>)
            finished } })"

text \<open>
  The loop \<^verbatim>\<open>while (!done)\<close>. Nothing in the code bounds its iterations, so the model
  counts them down from \<open>fuel\<close>.
\<close>

fun assign_loop ::
  "nat \<Rightarrow> bool \<Rightarrow> (RegClass \<times> nat set) list \<Rightarrow> nat \<Rightarrow> slot_state \<Rightarrow> slot_state option" where
  "assign_loop 0 vec I slot_idx st = None"
| "assign_loop (Suc fuel) vec I slot_idx st = do {
     (st', finished) \<leftarrow> assign_ids vec I slot_idx [0 ..< length I] st True;
     if finished then Some st' else assign_loop fuel vec I (slot_idx + 1) st' }"

text \<open>
  \<^verbatim>\<open>assign_spill_slots\<close> up to the two assertions that follow the assignment
  (\<^verbatim>\<open>has_spill_slot\<close> for every id, and the number of linear vgprs needed against
  \<^verbatim>\<open>spills_to_vgpr\<close>). The rest of the function rewrites the spill and reload
  instructions with the slots found here and does not change them.
\<close>

definition assign_spill_slots :: "nat \<Rightarrow> spill_ctx \<Rightarrow> nat \<Rightarrow> slot_state option" where
  "assign_spill_slots fuel ctx spills_to_vgpr = do {
     I \<leftarrow> merge_affinities (interferences ctx) (affinities ctx);
     if \<exists>i < length I. i \<in> snd (I ! i) then None
     else do {
       st1 \<leftarrow> assign_loop fuel False I 0
               \<lparr>sgpr_slot = Map.empty, vgpr_slot = Map.empty,
                is_assigned = replicate (length I) False, spill_slot_interferences = []\<rparr>;
       st2 \<leftarrow> assign_loop fuel True I 0 st1;
       if \<not> (\<forall>has_spill_slot \<in> set (is_assigned st2). has_spill_slot) then None
       else if \<not> ((length (spill_slot_interferences st2) + 63) div 64 \<le> spills_to_vgpr) then None
       else Some st2 } }"

text \<open>
  Eight scalar spill ids of 16, 16, 16, 8, 4, 2, 1 and 2 dwords, each interfering with
  all the others, and no affinities.
\<close>

definition example_spill_ctx :: spill_ctx where
  "example_spill_ctx =
     \<lparr>interferences =
        [(RegClass_s16, {1, 2, 3, 4, 5, 6, 7}), (RegClass_s16, {0, 2, 3, 4, 5, 6, 7}),
         (RegClass_s16, {0, 1, 3, 4, 5, 6, 7}), (RegClass_s8, {0, 1, 2, 4, 5, 6, 7}),
         (RegClass_s4, {0, 1, 2, 3, 5, 6, 7}), (RegClass_s2, {0, 1, 2, 3, 4, 6, 7}),
         (RegClass_s1, {0, 1, 2, 3, 4, 5, 7}), (RegClass_s2, {0, 1, 2, 3, 4, 5, 6})],
      affinities = []\<rparr>"

text \<open>
  The dwords \<open>slot, \<dots>, slot + n - 1\<close> lie in one linear vgpr, which holds 64 of them:
  the rewriting of \<^verbatim>\<open>p_spill\<close> and \<^verbatim>\<open>p_reload\<close> names linear vgpr \<open>slot div 64\<close> and
  index \<open>slot mod 64\<close> only.
\<close>

definition within_one_linear_vgpr :: "nat \<Rightarrow> nat \<Rightarrow> bool" where
  "within_one_linear_vgpr slot n = (n = 0 \<or> slot div 64 = (slot + n - 1) div 64)"

section \<open>Lowering of divergent boolean phis (aco_lower_bool_phis.cpp)\<close>

text \<open>
  What the pass takes from outside its file, as parameters: the storage in which an
  \<^verbatim>\<open>Operand\<close> and a \<^verbatim>\<open>Definition\<close> are constructed (the constructors leave some
  members unwritten), the addresses of the blocks (the keys of the maps are \<^verbatim>\<open>Block *\<close>,
  and \<^verbatim>\<open>phi_use\<close> is ordered by them), and two declarations of a version of
  \<^verbatim>\<open>aco_ir.h\<close> that is not at hand: the register \<^verbatim>\<open>scc\<close> and the constructor of a
  \<^verbatim>\<open>Definition\<close> from an id, a register and a register class.
\<close>

record lowering_env =
  operand_storage :: Operand
  definition_storage :: Definition
  block_address :: "nat \<Rightarrow> nat"
  scc_reg :: PhysReg
  Definition_fixed :: "32 word \<Rightarrow> PhysReg \<Rightarrow> RegClass \<Rightarrow> Definition"

text \<open>
  \<^verbatim>\<open>phi_use\<close> is a block, named by its position in the program, and the id a phi
  defines. \<^verbatim>\<open>ssa_state\<close>: a map without an entry for an id is the same to this code as
  one with an empty entry, so \<open>phis\<close> is total; an inner map is the list of its entries
  in the order of their keys.
\<close>

type_synonym phi_use = "nat \<times> 32 word"

record ssa_state =
  latest :: "nat \<rightharpoonup> 32 word"
  phis :: "32 word \<Rightarrow> (phi_use \<times> 64 word) list"

type_synonym lowering_state = "Program \<times> ssa_state"

definition phi_use_less :: "lowering_env \<Rightarrow> phi_use \<Rightarrow> phi_use \<Rightarrow> bool" where
  "phi_use_less env a b \<longleftrightarrow>
     block_address env (fst a) < block_address env (fst b)
     \<or> (block_address env (fst a) = block_address env (fst b) \<and> snd a < snd b)"

text \<open>\<^verbatim>\<open>map[use] |= msk\<close> on an inner map.\<close>

fun phis_or ::
  "lowering_env \<Rightarrow> (phi_use \<times> 64 word) list \<Rightarrow> phi_use \<Rightarrow> 64 word \<Rightarrow> (phi_use \<times> 64 word) list" where
  "phis_or env [] use msk = [(use, msk)]"
| "phis_or env ((u, m) # rest) use msk =
     (if u = use then (u, m OR msk) # rest
      else if phi_use_less env use u then (use, msk) # (u, m) # rest
      else (u, m) # phis_or env rest use msk)"

definition record_phi_use :: "lowering_env \<Rightarrow> 32 word \<Rightarrow> phi_use \<Rightarrow> nat \<Rightarrow> ssa_state \<Rightarrow> ssa_state" where
  "record_phi_use env tmp use i state =
     state\<lparr>phis := (phis state)(tmp := phis_or env (phis state tmp) use (push_bit i 1))\<rparr>"

definition set_instructions :: "nat \<Rightarrow> Instruction list \<Rightarrow> Program \<Rightarrow> Program" where
  "set_instructions b xs program =
     program\<lparr>blocks := (blocks program)[b := (blocks program ! b)\<lparr>instructions := xs\<rparr>]\<rparr>"

subsection \<open>get_ssa\<close>

text \<open>
  The \<^verbatim>\<open>for\<close> loop of \<^verbatim>\<open>get_ssa\<close> that fills the operands of a new linear phi, from
  operand \<open>i\<close> on; \<open>get\<close> is the recursive call.
\<close>

fun phi_operands ::
  "lowering_env \<Rightarrow> (nat \<Rightarrow> lowering_state \<Rightarrow> (Operand \<times> lowering_state) option) \<Rightarrow> nat \<Rightarrow> 32 word \<Rightarrow>
   nat \<Rightarrow> nat list \<Rightarrow> Instruction \<Rightarrow> lowering_state \<Rightarrow> (Instruction \<times> lowering_state) option" where
  "phi_operands env get block res i [] phi st = Some (phi, st)"
| "phi_operands env get block res i (p # preds) phi st = do {
     (op, program, state) \<leftarrow> get p st;
     if isTemp op \<and> \<not> i < 64 then None
     else phi_operands env get block res (i + 1) preds
            (phi\<lparr>operands := (operands phi)[i := op]\<rparr>)
            (program,
             if isTemp op then record_phi_use env (tempId op) (block, res) i state else state) }"

text \<open>
  \<^verbatim>\<open>get_ssa\<close>. Each turn of its loop and each recursive call takes one unit of \<open>fuel\<close>:
  a block that is its own only linear predecessor keeps the loop running for ever.
\<close>

fun get_ssa ::
  "lowering_env \<Rightarrow> nat \<Rightarrow> nat \<Rightarrow> lowering_state \<Rightarrow> (Operand \<times> lowering_state) option" where
  "get_ssa env 0 block st = None"
| "get_ssa env (Suc fuel) block (program, state) =
     (case latest state block of
        Some res \<Rightarrow>
          Some (Operand_temp (operand_storage env) \<lparr>temp_id = res, reg_class = RegClass_s2\<rparr>,
                program, state)
      | None \<Rightarrow> do {
          B \<leftarrow> nth_opt (blocks program) block;
          let preds = linear_predecessors B in
          if length preds = 0 then Some (Operand_undef (operand_storage env), program, state)
          else if length preds = 1 then get_ssa env fuel (preds ! 0) (program, state)
          else do {
            let (res, program1) = allocateId program;
            (phi, program2, state2) \<leftarrow>
              phi_operands env (\<lambda>p s. get_ssa env fuel p s) block res 0 preds
                (create_instruction p_linear_phi Format_PSEUDO (length preds) 1)
                (program1, state\<lparr>latest := (latest state)(block \<mapsto> res)\<rparr>);
            B2 \<leftarrow> nth_opt (blocks program2) block;
            Some (Operand_temp (operand_storage env) \<lparr>temp_id = res, reg_class = RegClass_s2\<rparr>,
                  set_instructions block
                    (phi\<lparr>definitions := (definitions phi)
                           [0 := Definition_temp (definition_storage env)
                                   \<lparr>temp_id = res, reg_class = RegClass_s2\<rparr>]\<rparr>
                     # instructions B2)
                    program2,
                  state2) } })"

subsection \<open>update_phi and write_ssa\<close>

text \<open>
  The bits of a mask in the order in which \<^verbatim>\<open>u_bit_scan64\<close> takes them out, and
  \<^verbatim>\<open>ffsll\<close>: one more than the position of the lowest bit, 0 for no bit.
\<close>

definition scan_bits :: "64 word \<Rightarrow> nat list" where
  "scan_bits msk = filter (bit msk) [0 ..< 64]"

definition ffsll :: "64 word \<Rightarrow> nat" where
  "ffsll msk = (case scan_bits msk of [] \<Rightarrow> 0 | i # _ \<Rightarrow> i + 1)"

text \<open>
  The search of \<^verbatim>\<open>update_phi\<close> through the phis at the head of a block for the linear
  phi that defines \<open>phi_def\<close>: its position, or \<open>None\<close> where the search reaches
  \<^verbatim>\<open>assert(false)\<close>.
\<close>

fun find_linear_phi :: "32 word \<Rightarrow> Instruction list \<Rightarrow> nat option" where
  "find_linear_phi phi_def [] = None"
| "find_linear_phi phi_def (phi # rest) =
     (if opcode phi \<noteq> p_phi \<and> opcode phi \<noteq> p_linear_phi then None
      else if opcode phi \<noteq> p_linear_phi then map_option Suc (find_linear_phi phi_def rest)
      else (case getDefinition phi 0 of
              None \<Rightarrow> None
            | Some d \<Rightarrow>
                if temp_id (def_temp d) \<noteq> phi_def
                then map_option Suc (find_linear_phi phi_def rest)
                else Some 0))"

text \<open>
  The loop \<^verbatim>\<open>while (operands)\<close> of \<^verbatim>\<open>update_phi\<close> on the phi at position \<open>j\<close> of
  \<open>block\<close>. The phi is held by reference into the instructions of the block, so the
  model stops where \<^verbatim>\<open>get_ssa\<close> has inserted into these in between.
\<close>

fun update_operands ::
  "lowering_env \<Rightarrow> (nat \<Rightarrow> lowering_state \<Rightarrow> (Operand \<times> lowering_state) option) \<Rightarrow> nat \<Rightarrow> 32 word \<Rightarrow>
   nat \<Rightarrow> nat list \<Rightarrow> lowering_state \<Rightarrow> lowering_state option" where
  "update_operands env get block phi_def j [] st = Some st"
| "update_operands env get block phi_def j (operand # rest) st = do {
     B \<leftarrow> nth_opt (blocks (fst st)) block;
     pred_block \<leftarrow> nth_opt (linear_predecessors B) operand;
     (new_operand, program1, state1) \<leftarrow> get pred_block st;
     B1 \<leftarrow> nth_opt (blocks program1) block;
     if instructions B1 \<noteq> instructions B then None
     else do {
       phi \<leftarrow> nth_opt (instructions B1) j;
       if \<not> operand < operandCount phi then None
       else update_operands env get block phi_def j rest
              (set_instructions block
                 ((instructions B1)[j := phi\<lparr>operands := (operands phi)[operand := new_operand]\<rparr>])
                 program1,
               if \<not> isUndefined new_operand
               then record_phi_use env (tempId new_operand) (block, phi_def) operand state1
               else state1) } }"

definition update_phi ::
  "lowering_env \<Rightarrow> nat \<Rightarrow> nat \<Rightarrow> 32 word \<Rightarrow> 64 word \<Rightarrow> lowering_state \<Rightarrow> lowering_state option" where
  "update_phi env fuel block phi_def operand_mask st = do {
     B \<leftarrow> nth_opt (blocks (fst st)) block;
     j \<leftarrow> find_linear_phi phi_def (instructions B);
     phi \<leftarrow> nth_opt (instructions B) j;
     if \<not> ffsll operand_mask \<le> operandCount phi then None
     else update_operands env (get_ssa env fuel) block phi_def j (scan_bits operand_mask) st }"

text \<open>The loop of \<^verbatim>\<open>write_ssa\<close> over the entries it has taken out of the state.\<close>

fun update_phis ::
  "lowering_env \<Rightarrow> nat \<Rightarrow> (phi_use \<times> 64 word) list \<Rightarrow> lowering_state \<Rightarrow> lowering_state option" where
  "update_phis env fuel [] st = Some st"
| "update_phis env fuel (((block, phi_def), msk) # rest) st = do {
     st1 \<leftarrow> update_phi env fuel block phi_def msk st;
     update_phis env fuel rest st1 }"

definition write_ssa ::
  "lowering_env \<Rightarrow> nat \<Rightarrow> nat \<Rightarrow> 32 word \<Rightarrow> lowering_state \<Rightarrow> (Temp \<times> lowering_state) option" where
  "write_ssa env fuel block previous st =
     (let (new_id, program1) = allocateId (fst st);
          state1 = (snd st)\<lparr>latest := (latest (snd st))(block \<mapsto> new_id)\<rparr>
      in if previous \<noteq> 0
         then do {
           st2 \<leftarrow> update_phis env fuel (phis state1 previous)
                   (program1, state1\<lparr>phis := (phis state1)(previous := [])\<rparr>);
           Some (\<lparr>temp_id = new_id, reg_class = RegClass_s2\<rparr>, st2) }
         else Some (\<lparr>temp_id = new_id, reg_class = RegClass_s2\<rparr>, program1, state1))"

subsection \<open>Insertion at the end of a block\<close>

text \<open>
  \<^verbatim>\<open>insert_before_branch\<close> and \<^verbatim>\<open>insert_before_logical_end\<close> on the instructions of a
  block. The first reads the last instruction, which an empty block does not have.
\<close>

definition insert_before_branch :: "Instruction list \<Rightarrow> Instruction \<Rightarrow> Instruction list option" where
  "insert_before_branch instrs instr =
     (if instrs = [] then None
      else if format (last instrs) = Format_PSEUDO_BRANCH
      then Some (butlast instrs @ [instr, last instrs])
      else Some (instrs @ [instr]))"

fun find_logical_end :: "Instruction list \<Rightarrow> nat \<Rightarrow> nat option" where
  "find_logical_end instrs 0 = None"
| "find_logical_end instrs (Suc i) =
     (if opcode (instrs ! i) = p_logical_end then Some i else find_logical_end instrs i)"

definition insert_before_logical_end ::
  "Instruction list \<Rightarrow> Instruction \<Rightarrow> Instruction list option" where
  "insert_before_logical_end instrs instr =
     (case find_logical_end instrs (length instrs) of
        Some i \<Rightarrow> Some (take i instrs @ instr # drop i instrs)
      | None \<Rightarrow> insert_before_branch instrs instr)"

definition insert_at_end :: "nat \<Rightarrow> Instruction \<Rightarrow> Program \<Rightarrow> Program option" where
  "insert_at_end block instr program = do {
     B \<leftarrow> nth_opt (blocks program) block;
     instrs \<leftarrow> insert_before_logical_end (instructions B) instr;
     Some (set_instructions block instrs program) }"

subsection \<open>lower_divergent_bool_phi\<close>

text \<open>The instructions that the loop of \<^verbatim>\<open>lower_divergent_bool_phi\<close> creates.\<close>

definition cselect_instr :: "lowering_env \<Rightarrow> Temp \<Rightarrow> Temp \<Rightarrow> Instruction" where
  "cselect_instr env phi_src new_src =
     (create_instruction s_cselect_b64 Format_SOP2 3 1)
       \<lparr>operands := [Operand_const (operand_storage env) 0xFFFFFFFF,
                     Operand_const (operand_storage env) 0,
                     setFixed (Operand_temp (operand_storage env) phi_src) (scc_reg env)],
        definitions := [Definition_temp (definition_storage env) new_src]\<rparr>"

definition mov_instr :: "lowering_env \<Rightarrow> Temp \<Rightarrow> Temp \<Rightarrow> Instruction" where
  "mov_instr env phi_src new_cur =
     (create_instruction s_mov_b64 Format_SOP1 1 1)
       \<lparr>operands := [Operand_temp (operand_storage env) phi_src],
        definitions := [Definition_temp (definition_storage env) new_cur]\<rparr>"

definition andn2_instr :: "lowering_env \<Rightarrow> Operand \<Rightarrow> Temp \<Rightarrow> 32 word \<Rightarrow> Instruction" where
  "andn2_instr env cur tmp1 scc_id =
     (create_instruction s_andn2_b64 Format_SOP2 2 2)
       \<lparr>operands := [cur, Operand_phys (operand_storage env) exec RegClass_s2],
        definitions := [Definition_temp (definition_storage env) tmp1,
                        Definition_fixed env scc_id (scc_reg env) RegClass_b]\<rparr>"

definition and_instr :: "lowering_env \<Rightarrow> Temp \<Rightarrow> Temp \<Rightarrow> 32 word \<Rightarrow> Instruction" where
  "and_instr env phi_src tmp2 scc_id =
     (create_instruction s_and_b64 Format_SOP2 2 2)
       \<lparr>operands := [Operand_temp (operand_storage env) phi_src,
                     Operand_phys (operand_storage env) exec RegClass_s2],
        definitions := [Definition_temp (definition_storage env) tmp2,
                        Definition_fixed env scc_id (scc_reg env) RegClass_b]\<rparr>"

definition or_instr :: "lowering_env \<Rightarrow> Temp \<Rightarrow> Temp \<Rightarrow> Temp \<Rightarrow> 32 word \<Rightarrow> Instruction" where
  "or_instr env tmp1 tmp2 new_cur scc_id =
     (create_instruction s_or_b64 Format_SOP2 2 2)
       \<lparr>operands := [Operand_temp (operand_storage env) tmp1,
                     Operand_temp (operand_storage env) tmp2],
        definitions := [Definition_temp (definition_storage env) new_cur,
                        Definition_fixed env scc_id (scc_reg env) RegClass_b]\<rparr>"

text \<open>
  The first part of the loop body: an operand of class \<^verbatim>\<open>s1\<close> is turned into a mask
  by \<^verbatim>\<open>s_cselect_b64\<close>. The result is the temporary that holds the mask.
\<close>

definition lower_edge_select :: "lowering_env \<Rightarrow> nat \<Rightarrow> Temp \<Rightarrow> Program \<Rightarrow> (Temp \<times> Program) option" where
  "lower_edge_select env pred_block phi_src program =
     (if reg_class phi_src = RegClass_s1
      then let (new_id, program1) = allocateId program;
               new_src = \<lparr>temp_id = new_id, reg_class = RegClass_s2\<rparr>
           in do {
             program2 \<leftarrow> insert_at_end pred_block (cselect_instr env phi_src new_src) program1;
             Some (new_src, program2) }
      else Some (phi_src, program))"

text \<open>The last part of the loop body: the instructions that define \<open>new_cur\<close>.\<close>

definition lower_edge_merge ::
  "lowering_env \<Rightarrow> nat \<Rightarrow> Operand \<Rightarrow> Temp \<Rightarrow> Temp \<Rightarrow> Program \<Rightarrow> Program option" where
  "lower_edge_merge env pred_block cur phi_src new_cur program =
     (if isUndefined cur then insert_at_end pred_block (mov_instr env phi_src new_cur) program
      else
        let (tmp1, program1) = allocateId program;
            (scc1, program2) = allocateId program1
        in do {
          program3 \<leftarrow> insert_at_end pred_block
            (andn2_instr env cur \<lparr>temp_id = tmp1, reg_class = RegClass_s2\<rparr> scc1) program2;
          let (tmp2, program4) = allocateId program3;
              (scc2, program5) = allocateId program4
          in do {
            program6 \<leftarrow> insert_at_end pred_block
              (and_instr env phi_src \<lparr>temp_id = tmp2, reg_class = RegClass_s2\<rparr> scc2) program5;
            let (scc3, program7) = allocateId program6 in
            insert_at_end pred_block
              (or_instr env \<lparr>temp_id = tmp1, reg_class = RegClass_s2\<rparr>
                 \<lparr>temp_id = tmp2, reg_class = RegClass_s2\<rparr> new_cur scc3) program7 } })"

text \<open>The body of the loop over the operands of the phi, for operand \<open>i\<close>.\<close>

definition lower_edge ::
  "lowering_env \<Rightarrow> nat \<Rightarrow> nat \<Rightarrow> Instruction \<Rightarrow> nat \<Rightarrow> lowering_state \<Rightarrow> lowering_state option" where
  "lower_edge env fuel block phi i st = do {
     B \<leftarrow> nth_opt (blocks (fst st)) block;
     pred_block \<leftarrow> nth_opt (logical_predecessors B) i;
     op \<leftarrow> getOperand phi i;
     if \<not> isTemp op then None
     else do {
       (phi_src, program1) \<leftarrow> lower_edge_select env pred_block (getTemp op) (fst st);
       if reg_class phi_src \<noteq> RegClass_s2 then None
       else do {
         (cur, st2) \<leftarrow> get_ssa env fuel pred_block (program1, snd st);
         (new_cur, program3, state3) \<leftarrow> write_ssa env fuel pred_block (tempId cur) st2;
         program4 \<leftarrow> lower_edge_merge env pred_block cur phi_src new_cur program3;
         Some (program4, state3) } } }"

fun lower_edges ::
  "lowering_env \<Rightarrow> nat \<Rightarrow> nat \<Rightarrow> Instruction \<Rightarrow> nat list \<Rightarrow> lowering_state \<Rightarrow> lowering_state option" where
  "lower_edges env fuel block phi [] st = Some st"
| "lower_edges env fuel block phi (i # rest) st = do {
     st1 \<leftarrow> lower_edge env fuel block phi i st;
     lower_edges env fuel block phi rest st1 }"

text \<open>
  \<^verbatim>\<open>lower_divergent_bool_phi\<close>: the copy that replaces the phi, and the program with
  the code inserted into the predecessors.
\<close>

definition lower_divergent_bool_phi ::
  "lowering_env \<Rightarrow> nat \<Rightarrow> Program \<Rightarrow> nat \<Rightarrow> Instruction \<Rightarrow> (Instruction \<times> Program) option" where
  "lower_divergent_bool_phi env fuel program block phi = do {
     st \<leftarrow> lower_edges env fuel block phi [0 ..< operandCount phi]
            (program, \<lparr>latest = Map.empty, phis = (\<lambda>tmp. [])\<rparr>);
     (result, program1, state1) \<leftarrow> get_ssa env fuel block st;
     d \<leftarrow> getDefinition phi 0;
     Some ((create_instruction s_mov_b64 Format_SOP1 1 1)\<lparr>operands := [result], definitions := [d]\<rparr>,
           program1) }"

subsection \<open>lower_bool_phis\<close>

definition is_phi :: "Instruction \<Rightarrow> bool" where
  "is_phi instr \<longleftrightarrow> opcode instr = p_phi \<or> opcode instr = p_linear_phi"

text \<open>
  The first loop of \<^verbatim>\<open>lower_bool_phis\<close> over the instructions taken out of a block:
  the copies collected in \<^verbatim>\<open>non_phi\<close>, and the instructions from the first that is no
  phi on.
\<close>

fun lower_phis ::
  "lowering_env \<Rightarrow> nat \<Rightarrow> nat \<Rightarrow> Instruction list \<Rightarrow> Program \<Rightarrow> Instruction list \<Rightarrow>
   (Program \<times> Instruction list \<times> Instruction list) option" where
  "lower_phis env fuel block [] program non_phi = Some (program, non_phi, [])"
| "lower_phis env fuel block (phi # rest) program non_phi =
     (if \<not> is_phi phi then Some (program, non_phi, phi # rest)
      else if opcode phi = p_phi
              \<and> map_option (\<lambda>d. reg_class (def_temp d)) (getDefinition phi 0) = Some RegClass_s2
      then do {
        (copy, program1) \<leftarrow> lower_divergent_bool_phi env fuel program block phi;
        lower_phis env fuel block rest program1 (non_phi @ [copy]) }
      else if opcode phi = p_phi \<and> getDefinition phi 0 = None then None
      else do {
        B \<leftarrow> nth_opt (blocks program) block;
        lower_phis env fuel block rest
          (set_instructions block (instructions B @ [phi]) program) non_phi })"

definition lower_block :: "lowering_env \<Rightarrow> nat \<Rightarrow> nat \<Rightarrow> Program \<Rightarrow> Program option" where
  "lower_block env fuel block program = do {
     B \<leftarrow> nth_opt (blocks program) block;
     (program1, non_phi, rest) \<leftarrow>
       lower_phis env fuel block (instructions B) (set_instructions block [] program) [];
     if list_ex is_phi (non_phi @ rest) then None
     else do {
       B1 \<leftarrow> nth_opt (blocks program1) block;
       Some (set_instructions block (instructions B1 @ non_phi @ rest) program1) } }"

fun lower_blocks :: "lowering_env \<Rightarrow> nat \<Rightarrow> nat list \<Rightarrow> Program \<Rightarrow> Program option" where
  "lower_blocks env fuel [] program = Some program"
| "lower_blocks env fuel (block # rest) program = do {
     program1 \<leftarrow> lower_block env fuel block program;
     lower_blocks env fuel rest program1 }"

definition lower_bool_phis :: "lowering_env \<Rightarrow> nat \<Rightarrow> Program \<Rightarrow> Program option" where
  "lower_bool_phis env fuel program =
     lower_blocks env fuel [0 ..< length (blocks program)] program"

subsection \<open>An example: a boolean phi after an if without else\<close>

text \<open>
  Zeroed storage, the blocks laid out in the order of the program, \<^verbatim>\<open>scc\<close> as register
  253, and a constructor that stores its three arguments.
\<close>

definition example_env :: lowering_env where
  "example_env =
     \<lparr>operand_storage = zero_operand, definition_storage = zero_definition,
      block_address = (\<lambda>b. b), scc_reg = 253,
      Definition_fixed = (\<lambda>tmp reg rc.
        \<lparr>def_temp = \<lparr>temp_id = tmp, reg_class = rc\<rparr>, def_reg = reg, def_isFixed = True,
         def_mustReuseInput = False, def_hasHint = False\<rparr>)\<rparr>"

definition example_def :: "nat \<Rightarrow> Temp \<Rightarrow> Instruction" where
  "example_def n tmp =
     (create_instruction (other_opcode n) Format_SOP1 0 1)
       \<lparr>definitions := [Definition_temp zero_definition tmp]\<rparr>"

definition example_logical_end :: Instruction where
  "example_logical_end = create_instruction p_logical_end Format_PSEUDO 0 0"

definition example_pseudo_branch :: Instruction where
  "example_pseudo_branch = create_instruction (other_opcode 0) Format_PSEUDO_BRANCH 0 0"

text \<open>
  Block 0 defines the mask \<open>%1\<close> and branches; block 1, entered from block 0, defines
  the 1-bit value \<open>%2\<close>; block 2 joins them with \<open>%3 = phi %1, %2\<close>.
\<close>

definition example_bool_phi :: Instruction where
  "example_bool_phi =
     (create_instruction p_phi Format_PSEUDO 2 1)
       \<lparr>operands := [Operand_temp zero_operand \<lparr>temp_id = 1, reg_class = RegClass_s2\<rparr>,
                     Operand_temp zero_operand \<lparr>temp_id = 2, reg_class = RegClass_s1\<rparr>],
        definitions := [Definition_temp zero_definition \<lparr>temp_id = 3, reg_class = RegClass_s2\<rparr>]\<rparr>"

definition example_if_program :: Program where
  "example_if_program =
     \<lparr>blocks =
        [\<lparr>index = 0,
          instructions = [example_def 1 \<lparr>temp_id = 1, reg_class = RegClass_s2\<rparr>,
                          example_logical_end, example_pseudo_branch],
          logical_predecessors = [], linear_predecessors = []\<rparr>,
         \<lparr>index = 1,
          instructions = [example_def 2 \<lparr>temp_id = 2, reg_class = RegClass_s1\<rparr>,
                          example_logical_end, example_pseudo_branch],
          logical_predecessors = [0], linear_predecessors = [0]\<rparr>,
         \<lparr>index = 2,
          instructions = [example_bool_phi, create_instruction s_endpgm Format_SOPP 0 0],
          logical_predecessors = [0, 1], linear_predecessors = [0, 1]\<rparr>],
      allocationID = 4\<rparr>"

text \<open>
  A loop of one block: block 1 is entered from block 0 and from itself, and joins the
  mask \<open>%1\<close> of block 0 with the mask \<open>%4\<close> that it defines itself, in
  \<open>%3 = phi %1, %4\<close>.
\<close>

definition example_loop_phi :: Instruction where
  "example_loop_phi =
     (create_instruction p_phi Format_PSEUDO 2 1)
       \<lparr>operands := [Operand_temp zero_operand \<lparr>temp_id = 1, reg_class = RegClass_s2\<rparr>,
                     Operand_temp zero_operand \<lparr>temp_id = 4, reg_class = RegClass_s2\<rparr>],
        definitions := [Definition_temp zero_definition \<lparr>temp_id = 3, reg_class = RegClass_s2\<rparr>]\<rparr>"

definition example_loop_program :: Program where
  "example_loop_program =
     \<lparr>blocks =
        [\<lparr>index = 0,
          instructions = [example_def 1 \<lparr>temp_id = 1, reg_class = RegClass_s2\<rparr>,
                          example_logical_end, example_pseudo_branch],
          logical_predecessors = [], linear_predecessors = []\<rparr>,
         \<lparr>index = 1,
          instructions = [example_loop_phi,
                          example_def 2 \<lparr>temp_id = 4, reg_class = RegClass_s2\<rparr>,
                          example_logical_end, example_pseudo_branch],
          logical_predecessors = [0, 1], linear_predecessors = [0, 1]\<rparr>],
      allocationID = 5\<rparr>"

subsection \<open>The end of a block, and what the construction of linear phis changes\<close>


text \<open>
  The changes that \<^verbatim>\<open>get_ssa\<close> and \<^verbatim>\<open>update_phi\<close> make to the instructions of a block:
  a new linear phi in front, and new operands for a phi among the phis at the head.
\<close>

inductive phi_rewrite :: "Instruction list \<Rightarrow> Instruction list \<Rightarrow> bool" where
  same: "phi_rewrite xs xs"
| prepend: "phi_rewrite xs ys \<Longrightarrow> opcode phi = p_linear_phi \<Longrightarrow> format phi = Format_PSEUDO \<Longrightarrow>
            phi_rewrite xs (phi # ys)"
| operand: "phi_rewrite xs ys \<Longrightarrow> j < length ys \<Longrightarrow> \<forall>i \<le> j. is_phi (ys ! i) \<Longrightarrow>
            phi_rewrite xs (ys[j := (ys ! j)\<lparr>operands := ops\<rparr>])"

definition program_rewrite :: "Program \<Rightarrow> Program \<Rightarrow> bool" where
  "program_rewrite P Q \<longleftrightarrow>
     length (blocks Q) = length (blocks P)
     \<and> (\<forall>b < length (blocks P).
          phi_rewrite (instructions (blocks P ! b)) (instructions (blocks Q ! b))
          \<and> logical_predecessors (blocks Q ! b) = logical_predecessors (blocks P ! b)
          \<and> linear_predecessors (blocks Q ! b) = linear_predecessors (blocks P ! b))"





subsection \<open>Well-formed input and state of the lowering\<close>












subsection \<open>The accumulator that reaches the end of a block\<close>



section \<open>Lemmas on the register bounds\<close>

lemma register_bounds_total:
  assumes "program_vgpr_demand program \<le> 256" and "program_sgpr_demand program \<le> 100"
  shows "\<exists>e. register_bounds program = Inr e"
  using assms by (simp add: register_bounds_def)

lemma register_bounds_in_table:
  "register_bounds program = Inr e \<Longrightarrow> in_table e"
  unfolding register_bounds_def in_table_def wave_table_def
  by (simp split: if_splits; clarsimp)

lemma register_bounds_fits:
  "register_bounds program = Inr e \<Longrightarrow> fits program e"
  unfolding register_bounds_def fits_def
  by (simp split: if_splits; clarsimp)

lemma register_bounds_least:
  "register_bounds program = Inr e \<Longrightarrow> e' \<in> set wave_table \<Longrightarrow> fits program e' \<Longrightarrow>
     fst e \<le> fst e' \<and> snd e \<le> snd e'"
  unfolding register_bounds_def fits_def wave_table_def
  by (simp split: if_splits; elim disjE; clarsimp)

lemma register_bounds_last:
  "register_bounds program = Inr e \<Longrightarrow> e \<notin> set wave_table \<Longrightarrow> e' \<in> set wave_table \<Longrightarrow>
     \<not> fits program e'"
  unfolding register_bounds_def fits_def wave_table_def
  by (simp split: if_splits; elim disjE; clarsimp)

lemma register_bounds_example:
  "program_sgpr_demand program = 30 \<Longrightarrow> program_vgpr_demand program = 20 \<Longrightarrow>
     register_bounds program = Inr (46, 24)"
  by (simp add: register_bounds_def)

section \<open>Lemmas on 16-bit rounding and the occupancy\<close>

lemma and_not_3: "(x::16 word) AND NOT 3 = push_bit 2 (drop_bit 2 x)"
proof -
  have m: "(3::16 word) = mask 2" by (simp add: mask_eq_exp_minus_1)
  have s: "\<And>n::nat. 2 \<le> n \<Longrightarrow> Suc (Suc (n - 2)) = n" by arith
  show ?thesis unfolding m
    by (rule bit_word_eqI) (auto simp: bit_simps s)
qed

lemma and_not_7: "(x::16 word) AND NOT 7 = push_bit 3 (drop_bit 3 x)"
proof -
  have m: "(7::16 word) = mask 3" by (simp add: mask_eq_exp_minus_1)
  show ?thesis unfolding m
    by (rule bit_word_eqI) (auto simp: bit_simps)
qed

lemma unat_div_mult_16:
  fixes x k :: "16 word"
  shows "unat (x div k * k) = unat x div unat k * unat k"
proof -
  have b: "unat x < 2 ^ LENGTH(16)" by (rule unsigned_less)
  have "unat (x div k) * unat k \<le> unat x" by (simp add: unat_div)
  then have "unat (x div k) * unat k < 2 ^ LENGTH(16)" using b by (rule order.strict_trans1)
  then have "unat (x div k * k) = unat (x div k) * unat k"
    by (simp only: unat_mult_lem)
  then show ?thesis by (simp add: unat_div)
qed

lemma unat_and_not_3: "unat ((x::16 word) AND NOT 3) = unat x div 4 * 4"
  unfolding and_not_3 push_bit_eq_mult drop_bit_eq_div
  using unat_div_mult_16 [of x 4] by simp

lemma unat_and_not_7: "unat ((x::16 word) AND NOT 7) = unat x div 8 * 8"
  unfolding and_not_7 push_bit_eq_mult drop_bit_eq_div
  using unat_div_mult_16 [of x 8] by simp

lemma unat_min_16: "unat (min (a::16 word) b) = min (unat a) (unat b)"
  by (simp add: min_def word_le_nat_alt)

lemma unat_max_16: "unat (max (a::16 word) b) = max (unat a) (unat b)"
  by (simp add: max_def word_le_nat_alt)

lemma unat_add_16:
  fixes a b :: "16 word"
  assumes "unat a + unat b < 65536"
  shows "unat (a + b) = unat a + unat b"
  using assms unat_add_lem [of a b] by simp

lemma unat_round4:
  assumes "unat (v :: 16 word) \<le> 256"
  shows "unat ((v + 3) AND NOT 3) = round4 (unat v)"
proof -
  have "unat (v + 3) = unat v + unat (3 :: 16 word)"
    using assms by (intro unat_add_16) simp
  then show ?thesis by (simp only: unat_and_not_3 round4_def) simp
qed

lemma unat_round8:
  assumes "unat (s :: 16 word) \<le> 1000"
  shows "unat ((s + 7) AND NOT 7) = round8 (unat s)"
proof -
  have "unat (s + 7) = unat s + unat (7 :: 16 word)"
    using assms by (intro unat_add_16) simp
  then show ?thesis by (simp only: unat_and_not_7 round8_def) simp
qed

lemma round8_le_96: "n \<le> 96 \<Longrightarrow> round8 n \<le> 96"
  unfolding round8_def by presburger

lemma round8_eq_104: "96 < n \<Longrightarrow> n \<le> 104 \<Longrightarrow> round8 n = 104"
  unfolding round8_def by presburger

lemma round8_ge_8: "0 < n \<Longrightarrow> 8 \<le> round8 n"
  unfolding round8_def by presburger

lemma div_clamp_102:
  assumes "n \<le> 102"
  shows "800 div min (round8 n) 102 = 800 div round8 n"
proof (cases "n \<le> 96")
  case True
  then have "round8 n \<le> 96" by (rule round8_le_96)
  then show ?thesis by (simp add: min_def)
next
  case False
  then have "round8 n = 104" using assms by (intro round8_eq_104) simp_all
  then show ?thesis by simp
qed

lemma div_clamp_104:
  assumes "n \<le> 104"
  shows "512 div min (round8 n) 104 = 512 div round8 n"
proof (cases "n \<le> 96")
  case True
  then have "round8 n \<le> 96" by (rule round8_le_96)
  then show ?thesis by (simp add: min_def)
next
  case False
  then have "round8 n = 104" using assms by (intro round8_eq_104) simp_all
  then show ?thesis by simp
qed

lemma num_waves_clamped:
  assumes "unat vgpr_demand \<le> 256"
    and "unat sgpr_demand + 2 \<le> unat (max_addressible_sgpr VI chip_class)"
  shows "unat (num_waves (live_var_analysis_demand VI True chip_class vgpr_demand sgpr_demand program)) =
           min 10 (min (256 div max 4 (round4 (unat vgpr_demand)))
                       (unat (total_sgpr_regs VI chip_class) div round8 (unat sgpr_demand + 2)))"
proof -
  define ma where "ma = max_addressible_sgpr VI chip_class"
  define tot where "tot = total_sgpr_regs VI chip_class"
  define s where "s = sgpr_demand + 2"
  define rv where "rv = max 4 ((vgpr_demand + 3) AND NOT 3)"
  define rs where "rs = min (max 8 ((s + 7) AND NOT 7)) ma"
  have m: "unat ma \<le> 104"
    by (simp add: ma_def max_addressible_sgpr_def)
  have s2: "unat s = unat sgpr_demand + 2"
    unfolding s_def using assms(2) m unat_add_16 [of sgpr_demand 2] by (simp add: ma_def)
  have sle: "unat s \<le> unat ma"
    using assms(2) s2 by (simp add: ma_def)
  have r8: "unat ((s + 7) AND NOT 7) = round8 (unat s)"
    using sle m by (intro unat_round8) simp
  have r4: "unat ((vgpr_demand + 3) AND NOT 3) = round4 (unat vgpr_demand)"
    using assms(1) by (rule unat_round4)
  have g8: "8 \<le> round8 (unat s)"
    using s2 by (intro round8_ge_8) simp
  have urv: "unat rv = max 4 (round4 (unat vgpr_demand))"
    unfolding rv_def by (simp only: unat_max_16 r4) simp
  have urs: "unat rs = min (round8 (unat s)) (unat ma)"
    unfolding rs_def using g8 by (simp only: unat_min_16 unat_max_16 r8) simp
  have nv: "\<not> vgpr_demand > 256"
    using assms(1) by (simp add: word_less_nat_alt)
  have ns: "\<not> s > ma"
    using sle by (simp add: word_less_nat_alt)
  have rs: "unat tot div min (round8 (unat s)) (unat ma) = unat tot div round8 (unat s)"
  proof (cases "chip_class \<ge> VI")
    case True
    then show ?thesis
      using sle div_clamp_102 [of "unat s"]
      by (simp add: tot_def ma_def total_sgpr_regs_def max_addressible_sgpr_def)
  next
    case False
    then show ?thesis
      using sle div_clamp_104 [of "unat s"]
      by (simp add: tot_def ma_def total_sgpr_regs_def max_addressible_sgpr_def)
  qed
  have nw: "num_waves (live_var_analysis_demand VI True chip_class vgpr_demand sgpr_demand program) =
              min 10 (min (256 div rv) (tot div rs))"
    using nv ns
    unfolding live_var_analysis_demand_def Let_def rv_def rs_def s_def ma_def tot_def
    by simp
  have "unat (min 10 (min (256 div rv) (tot div rs))) =
          min 10 (min (256 div unat rv) (unat tot div unat rs))"
    by (simp add: unat_min_16 unat_div)
  then show ?thesis
    by (simp only: nw urv urs s2 tot_def rs [unfolded s2 tot_def])
qed

lemma round4_pos: "0 < n \<Longrightarrow> 4 \<le> round4 n"
  unfolding round4_def by presburger

lemma num_waves_spec:
  assumes "0 < unat vgpr_demand" and "unat vgpr_demand \<le> 256"
    and "unat sgpr_demand + 2 \<le> unat (max_addressible_sgpr VI chip_class)"
  shows "spec_num_waves (unat (total_sgpr_regs VI chip_class)) (unat vgpr_demand) (unat sgpr_demand) =
           Some (unat (num_waves
             (live_var_analysis_demand VI True chip_class vgpr_demand sgpr_demand program)))"
proof -
  have a: "4 \<le> round4 (unat vgpr_demand)"
    using assms(1) by (rule round4_pos)
  have b: "8 \<le> round8 (unat sgpr_demand + 2)"
    by (intro round8_ge_8) simp
  have c: "max 4 (round4 (unat vgpr_demand)) = round4 (unat vgpr_demand)"
    using a by simp
  show ?thesis
    using a b
    by (simp only: num_waves_clamped [OF assms(2,3)] c spec_num_waves_def) simp
qed

lemma num_waves_exhausted:
  assumes "256 < vgpr_demand \<or> max_addressible_sgpr VI chip_class < sgpr_demand + 2"
  shows "live_var_analysis_demand VI True chip_class vgpr_demand sgpr_demand program =
           program\<lparr>num_waves := 0, max_sgpr := sgpr_demand + 2, max_vgpr := vgpr_demand\<rparr>"
  using assms by (auto simp add: live_var_analysis_demand_def Let_def)

lemma num_waves_exhausted_below:
  assumes "unat sgpr_demand \<le> 65533"
    and "256 < unat vgpr_demand \<or> unat (max_addressible_sgpr VI chip_class) < unat sgpr_demand + 2"
  shows "live_var_analysis_demand VI True chip_class vgpr_demand sgpr_demand program =
           program\<lparr>num_waves := 0, max_sgpr := sgpr_demand + 2, max_vgpr := vgpr_demand\<rparr>"
proof -
  from assms(1) have "unat (sgpr_demand + 2) = unat sgpr_demand + 2"
    by (subst unat_add_lem [THEN iffD1]) simp_all
  with assms(2) have "256 < vgpr_demand \<or> max_addressible_sgpr VI chip_class < sgpr_demand + 2"
    by (auto simp: word_less_nat_alt)
  then show ?thesis by (rule num_waves_exhausted)
qed

section \<open>Lemmas on the divergence analysis\<close>

lemma rd_Some: "rd t i = Some b \<longleftrightarrow> i < length t \<and> b = t ! i"
  by (auto simp: rd_def)

lemma wr_Some: "wr t i v = Some t' \<longleftrightarrow> i < length t \<and> t' = t[i := v]"
  by (auto simp: wr_def)

lemma phi_scan_srcs_None:
  "phi_scan_srcs t srcs n = Some None \<Longrightarrow>
     \<exists>src \<in> set srcs. phi_src_index src < length t \<and> t ! phi_src_index src"
  by (induction srcs arbitrary: n)
     (auto simp: bind_eq_Some_conv rd_Some split: if_splits)

lemma phi_scan_srcs_Some:
  "phi_scan_srcs t srcs n = Some (Some m) \<Longrightarrow>
     (\<forall>src \<in> set srcs. \<not> t ! phi_src_index src) \<and>
     m = n + length (filter (\<lambda>src. \<not> phi_src_is_undef src) srcs)"
proof (induction srcs arbitrary: n)
  case Nil
  then show ?case by simp
next
  case (Cons src srcs)
  from Cons.prems have a: "\<not> t ! phi_src_index src"
    and b: "phi_scan_srcs t srcs (if \<not> phi_src_is_undef src then n + 1 else n) = Some (Some m)"
    by (auto simp: bind_eq_Some_conv rd_Some split: if_splits)
  from Cons.IH [OF b] a show ?case by auto
qed

lemma visit_phi_cases:
  assumes "visit_phi divergent instr = Some (t, changed)"
  obtains
    (already) "phi_dest instr < length divergent" "divergent ! phi_dest instr" "t = divergent"
  | (operand) "phi_dest instr < length divergent" "\<not> divergent ! phi_dest instr"
      "phi_scan_srcs divergent (phi_srcs instr) 0 = Some None"
      "t = divergent[phi_dest instr := True]"
  | (undefs) n where "phi_dest instr < length divergent" "\<not> divergent ! phi_dest instr"
      "phi_scan_srcs divergent (phi_srcs instr) 0 = Some (Some n)" "n \<le> 1" "t = divergent"
  | (condition) n c where "phi_dest instr < length divergent" "\<not> divergent ! phi_dest instr"
      "phi_scan_srcs divergent (phi_srcs instr) 0 = Some (Some n)" "2 \<le> n"
      "phi_condition_divergent divergent instr = Some c" "t = divergent[phi_dest instr := c]"
proof -
  from assms obtain d where d: "rd divergent (phi_dest instr) = Some d"
    by (auto simp: visit_phi_def bind_eq_Some_conv)
  then have l: "phi_dest instr < length divergent" and dv: "d = divergent ! phi_dest instr"
    by (simp_all add: rd_Some)
  show ?thesis
  proof (cases d)
    case True
    with assms d have "t = divergent" by (simp add: visit_phi_def)
    with True dv l show ?thesis by (intro already) simp_all
  next
    case False
    with assms d obtain scan where sc: "phi_scan_srcs divergent (phi_srcs instr) 0 = Some scan"
      by (auto simp: visit_phi_def bind_eq_Some_conv)
    show ?thesis
    proof (cases scan)
      case None
      with assms d False sc l have "t = divergent[phi_dest instr := True]"
        by (auto simp: visit_phi_def bind_eq_Some_conv wr_Some)
      with None sc False dv l show ?thesis by (intro operand) simp_all
    next
      case (Some n)
      show ?thesis
      proof (cases "n \<le> 1")
        case True
        with assms d False sc Some have "t = divergent"
          by (simp add: visit_phi_def)
        with True Some sc False dv l show ?thesis by (intro undefs [of n]) simp_all
      next
        case n2: False
        with assms d False sc Some obtain c where
          "phi_condition_divergent divergent instr = Some c" "t = divergent[phi_dest instr := c]"
          by (auto simp: visit_phi_def bind_eq_Some_conv wr_Some)
        with n2 Some sc False dv l show ?thesis by (intro condition [of n c]) simp_all
      qed
    qed
  qed
qed

lemma visit_phi_gamma_aux:
  assumes "block_prev instr = Some (nir_cf_node_if cond)"
    and "visit_phi divergent instr = Some (t, changed)"
  shows "length t = length divergent \<and> phi_dest instr < length t \<and>
         (t ! phi_dest instr \<longleftrightarrow>
            divergent ! phi_dest instr \<or>
            (\<exists>src \<in> set (phi_srcs instr). divergent ! phi_src_index src) \<or>
            (2 \<le> length (filter (\<lambda>src. \<not> phi_src_is_undef src) (phi_srcs instr)) \<and>
             divergent ! cond))"
  using assms(2)
proof (cases rule: visit_phi_cases)
  case already
  then show ?thesis by simp
next
  case operand
  from phi_scan_srcs_None [OF operand(3)] operand(1,4) show ?thesis by auto
next
  case (undefs n)
  from phi_scan_srcs_Some [OF undefs(3)] undefs(1,2,4,5) show ?thesis by auto
next
  case (condition n c)
  from condition(5) assms(1) have "cond < length divergent" and "c = divergent ! cond"
    by (simp_all add: phi_condition_divergent_def rd_Some)
  with phi_scan_srcs_Some [OF condition(3)] condition(1,2,4,6) show ?thesis by auto
qed

lemma disjoint_dests:
  "distinct (concat (map f xs)) \<Longrightarrow> x \<in> set xs \<Longrightarrow> y \<in> set xs \<Longrightarrow> x \<noteq> y \<Longrightarrow>
     set (f x) \<inter> set (f y) = {}"
  by (induction xs) auto

lemma grows_refl: "grows t t"
  by (simp add: grows_def)

lemma grows_trans: "grows t u \<Longrightarrow> grows u v \<Longrightarrow> grows t v"
  by (simp add: grows_def)

lemma nth_update_cases: "i < length t \<Longrightarrow> t[d := v] ! i = (if i = d then v else t ! i)"
  by (simp add: nth_list_update)

lemma grows_update: "\<not> t ! d \<or> v \<Longrightarrow> grows t (t[d := v])"
  unfolding grows_def by (auto simp: nth_update_cases)

lemma uniform_kept_update:
  assumes "ssa_form impl" and "instr \<in> set (impl_instrs impl)" and "\<not> never_divergent instr"
    and "d \<in> set (dests instr)" and "uniform_kept impl t"
  shows "uniform_kept impl (t[d := v])"
  unfolding uniform_kept_def
proof (intro ballI impI)
  fix other e
  assume i: "other \<in> set (impl_instrs impl)" and n: "never_divergent other"
    and d: "e \<in> set (dests other)" and l: "e < length (t[d := v])"
  from n assms(3) have "instr \<noteq> other" by auto
  with assms(1,2) i have "set (dests instr) \<inter> set (dests other) = {}"
    unfolding ssa_form_def by (intro disjoint_dests) auto
  with d assms(4) have "e \<noteq> d" by auto
  moreover from assms(5) i n d l have "\<not> t ! e"
    by (auto simp: uniform_kept_def)
  ultimately show "\<not> t[d := v] ! e" by simp
qed

lemma uniform_kept_False: "uniform_kept impl t \<Longrightarrow> uniform_kept impl (t[d := False])"
  unfolding uniform_kept_def by (auto simp: nth_update_cases)

lemma visit_parallel_copy_step:
  assumes "ssa_form impl" and "Parallel_copy all \<in> set (impl_instrs impl)"
    and "set entries \<subseteq> set all" and "uniform_kept impl t"
    and "visit_parallel_copy t entries c = Some (u, c2)"
  shows "grows t u \<and> uniform_kept impl u"
  using assms(3-)
proof (induction entries arbitrary: t c)
  case Nil
  then show ?case by (simp add: grows_refl)
next
  case (Cons e entries)
  obtain dest src where e: "e = (dest, src)" by (cases e)
  show ?case
  proof (cases "t ! dest")
    case True
    with Cons.prems e have "visit_parallel_copy t entries c = Some (u, c2)"
      by (auto simp: bind_eq_Some_conv rd_Some)
    with Cons show ?thesis by auto
  next
    case False
    with Cons.prems e obtain s where
      r: "visit_parallel_copy (t[dest := s]) entries (c \<or> s) = Some (u, c2)"
      by (auto simp: bind_eq_Some_conv rd_Some wr_Some)
    have d: "dest \<in> set (dests (Parallel_copy all))"
      using Cons.prems(1) e by force
    have k: "uniform_kept impl (t[dest := s])"
      using assms(1,2) _ d Cons.prems(2) by (rule uniform_kept_update) simp
    have g: "grows t (t[dest := s])"
      using False by (intro grows_update) simp
    from Cons.IH [OF _ k r] Cons.prems(1) have "grows (t[dest := s]) u \<and> uniform_kept impl u"
      by auto
    with g show ?thesis by (auto intro: grows_trans)
  qed
qed

lemma visit_instr_step:
  assumes "ssa_form impl" and "instr \<in> set (impl_instrs impl)" and "uniform_kept impl t"
    and "visit_instr t instr = Some (u, c)"
  shows "grows t u \<and> uniform_kept impl u"
proof (cases instr)
  case (Alu a)
  with assms(4) show ?thesis
    using uniform_kept_update [OF assms(1,2) _ _ assms(3), of "alu_dest a"] assms(3)
    by (auto simp: visit_alu_def bind_eq_Some_conv rd_Some wr_Some grows_refl
          intro!: grows_update split: if_splits)
next
  case (Intrinsic a)
  with assms(4) show ?thesis
    using uniform_kept_update [OF assms(1,2) _ _ assms(3), of "intrinsic_dest a"] assms(3)
    by (auto simp: visit_intrinsic_def bind_eq_Some_conv rd_Some wr_Some grows_refl
          intro!: grows_update split: if_splits)
next
  case (Tex a)
  with assms(4) show ?thesis
    using uniform_kept_update [OF assms(1,2) _ _ assms(3), of "tex_dest a"] assms(3)
    by (auto simp: visit_tex_def bind_eq_Some_conv rd_Some wr_Some grows_refl
          intro!: grows_update split: if_splits)
next
  case (Phi a)
  have k: "\<And>v. uniform_kept impl (t[phi_dest a := v])"
    using assms(1,2) _ _ assms(3) by (rule uniform_kept_update) (simp_all add: Phi)
  from assms(4) Phi have "visit_phi t a = Some (u, c)" by simp
  then show ?thesis
  proof (cases rule: visit_phi_cases)
    case already
    with assms(3) show ?thesis by (simp add: grows_refl)
  next
    case operand
    with k show ?thesis by (simp add: grows_update)
  next
    case (undefs n)
    with assms(3) show ?thesis by (simp add: grows_refl)
  next
    case (condition n b)
    with k show ?thesis by (simp add: grows_update)
  qed
next
  case (Parallel_copy entries)
  with assms show ?thesis
    using visit_parallel_copy_step [of impl entries entries t False u c] by simp
next
  case (Load_const d)
  with assms(4) have l: "d < length t" and u: "u = t[d := False]"
    by (auto simp: visit_load_const_def bind_eq_Some_conv wr_Some)
  have "uniform_kept impl u"
    unfolding u using assms(3) by (rule uniform_kept_False)
  moreover have "never_divergent instr" and "d \<in> set (dests instr)"
    using Load_const by simp_all
  with assms(2,3) l have "\<not> t ! d"
    unfolding uniform_kept_def by blast
  then have "grows t u"
    unfolding u by (intro grows_update) simp
  ultimately show ?thesis by simp
next
  case (Ssa_undef d)
  with assms(4) have l: "d < length t" and u: "u = t[d := False]"
    by (auto simp: visit_ssa_undef_def bind_eq_Some_conv wr_Some)
  have "uniform_kept impl u"
    unfolding u using assms(3) by (rule uniform_kept_False)
  moreover have "never_divergent instr" and "d \<in> set (dests instr)"
    using Ssa_undef by simp_all
  with assms(2,3) l have "\<not> t ! d"
    unfolding uniform_kept_def by blast
  then have "grows t u"
    unfolding u by (intro grows_update) simp
  ultimately show ?thesis by simp
next
  case (Deref a)
  show ?thesis
  proof (cases "\<exists>ty \<in> set (deref_uses a). ty \<noteq> nir_instr_type_tex")
    case True
    then have "never_divergent instr" using Deref by simp
    with assms(2,3) have "deref_dest a < length t \<longrightarrow> \<not> t ! deref_dest a"
      using Deref by (auto simp: uniform_kept_def)
    with True assms(3,4) Deref show ?thesis
      by (auto simp: visit_deref_def bind_eq_Some_conv wr_Some uniform_kept_False
            intro!: grows_update)
  next
    case False
    then have n: "\<not> never_divergent instr" using Deref by simp
    have "uniform_kept impl (t[deref_dest a := True])"
      using assms(1,2) n _ assms(3) by (rule uniform_kept_update) (simp add: Deref)
    with False assms(4) Deref show ?thesis
      by (auto simp: visit_deref_def bind_eq_Some_conv rd_Some wr_Some intro!: grows_update)
  qed
next
  case Jump
  with assms show ?thesis by (simp add: grows_refl)
next
  case Call
  with assms show ?thesis by simp
next
  case Invalid_instr
  with assms show ?thesis by simp
qed

lemma visit_all_kept:
  assumes "ssa_form impl" and "set visited \<subseteq> set (impl_instrs impl)" and "uniform_kept impl t"
    and "visit_all t visited = Some u"
  shows "grows t u \<and> uniform_kept impl u"
  using assms(2-)
proof (induction visited arbitrary: t)
  case Nil
  then show ?case by (simp add: grows_refl)
next
  case (Cons instr visited)
  from Cons.prems(3) obtain t1 c where v: "visit_instr t instr = Some (t1, c)"
    and r: "visit_all t1 visited = Some u"
    by (auto simp: bind_eq_Some_conv)
  from Cons.prems(1) have i: "instr \<in> set (impl_instrs impl)" by simp
  from visit_instr_step [OF assms(1) i Cons.prems(2) v]
  have g: "grows t t1" and k: "uniform_kept impl t1" by simp_all
  from Cons.IH [OF _ k r] Cons.prems(1) have "grows t1 u \<and> uniform_kept impl u" by simp
  with g show ?case by (auto intro: grows_trans)
qed

lemma uniform_kept_initial: "uniform_kept impl (replicate n False)"
  by (simp add: uniform_kept_def)


lemma visit_block_visit_all:
  "visit_block t instrs c = Some (u, c2) \<Longrightarrow> visit_all t instrs = Some u"
  by (induction instrs arbitrary: t c) (auto simp: bind_eq_Some_conv)

lemma visit_all_append:
  "visit_all t xs = Some u \<Longrightarrow> visit_all u ys = Some v \<Longrightarrow> visit_all t (xs @ ys) = Some v"
  by (induction xs arbitrary: t) (auto simp: bind_eq_Some_conv)

lemma divergence_loop_visits:
  "divergence_loop fuel impl worklist t = Some u \<Longrightarrow>
     \<exists>visited. set visited \<subseteq> set (impl_instrs impl) \<and> visit_all t visited = Some u"
proof (induction fuel impl worklist t rule: divergence_loop.induct)
  case (1 fuel impl t)
  then have "visit_all t [] = Some u" by simp
  then show ?case by (intro exI [of _ "[]"]) simp
next
  case (2 impl b worklist t)
  then show ?case by simp
next
  case (3 fuel impl b worklist t)
  from "3.prems" obtain block t1 has_changed where
    b: "nth_opt (impl_blocks impl) b = Some block"
    and v: "visit_block t block False = Some (t1, has_changed)"
    and r: "divergence_loop fuel impl
              (if has_changed then nir_block_worklist_add_all worklist impl else worklist) t1 = Some u"
    by (auto simp: bind_eq_Some_conv)
  from "3.IH" [OF b _ _ r] v obtain visited where
    s: "set visited \<subseteq> set (impl_instrs impl)" and a: "visit_all t1 visited = Some u"
    by auto
  from b have "block \<in> set (impl_blocks impl)"
    by (auto simp: nth_opt_def split: if_splits)
  then have "set block \<subseteq> set (impl_instrs impl)"
    by (auto simp: impl_instrs_def)
  with s have "set (block @ visited) \<subseteq> set (impl_instrs impl)" by simp
  moreover from visit_block_visit_all [OF v] a have "visit_all t (block @ visited) = Some u"
    by (rule visit_all_append)
  ultimately show ?case by blast
qed

lemma example_impl_ssa_form: "ssa_form example_impl"
  by (simp add: ssa_form_def impl_instrs_def example_impl_def example_input_def example_alu_def)

lemma example_impl_visited:
  "visit_all (replicate (ssa_alloc example_impl) False) [Load_const 0, example_input] =
     Some [False, True, False]"
  by (simp add: example_impl_def example_input_def visit_load_const_def visit_intrinsic_def
        wr_def rd_def numeral_3_eq_3)

lemma example_impl_visit_alu:
  "visit_instr [False, True, False] example_alu = Some ([False, True, True], True)"
  by (simp add: example_alu_def visit_alu_def alu_src_is_divergent_def wr_def rd_def nth_opt_def
        upt_rec numeral_2_eq_2)

section \<open>Lemmas on the operands and the assembler\<close>

lemmas Format_defs =
  Format_PSEUDO_def Format_SOP1_def Format_SOP2_def Format_SOPK_def Format_SOPP_def
  Format_SOPC_def Format_SMEM_def Format_VINTRP_def Format_DS_def Format_MTBUF_def
  Format_MUBUF_def Format_MIMG_def Format_EXP_def Format_FLAT_def Format_GLOBAL_def
  Format_SCRATCH_def Format_PSEUDO_BRANCH_def Format_VOP1_def Format_VOP2_def Format_VOPC_def
  Format_VOP3B_def Format_VOP3P_def Format_VOP3A_def Format_DPP_def Format_SDWA_def

lemmas Operand_defs =
  Operand_const_def Operand_temp_def Operand_undef_def Operand_phys_def fresh_operand_def
  setFixed_def isConstant_def isLiteral_def constantValue_def physReg_def isTemp_def
  isUndefined_def tempId_def regClass_def getTemp_def























lemma inline_small: "(v :: 32 word) \<le> 64 \<Longrightarrow> 128 + v \<noteq> 255"
  by unat_arith

lemma inline_exclusive: "(v :: 32 word) \<le> 64 \<Longrightarrow> \<not> 0xFFFFFFF0 \<le> v"
  by unat_arith

lemma unat_inline_negative:
  assumes "(0xFFFFFFF0 :: 32 word) \<le> v"
  shows "unat (192 - v) = 4294967488 - unat v"
proof -
  from assms have "4294967280 \<le> unat v" by (simp add: word_le_nat_alt)
  moreover have "unat v < 4294967296" using unsigned_less [of v, where 'a = nat] by simp
  ultimately show ?thesis
    by (simp add: unat_sub_if_size word_size)
qed

lemma inline_negative_range:
  assumes "(0xFFFFFFF0 :: 32 word) \<le> v"
  shows "193 \<le> 192 - v \<and> 192 - v \<le> 208"
proof -
  from assms have "4294967280 \<le> unat v" by (simp add: word_le_nat_alt)
  moreover have "unat v < 4294967296" using unsigned_less [of v, where 'a = nat] by simp
  ultimately have "193 \<le> 4294967488 - unat v \<and> 4294967488 - unat v \<le> 208" by linarith
  then show ?thesis
    by (simp add: word_le_nat_alt unat_inline_negative [OF assms])
qed

lemma inline_negative:
  assumes "(0xFFFFFFF0 :: 32 word) \<le> v"
  shows "192 - v \<noteq> 255"
proof
  assume "192 - v = 255"
  with inline_negative_range [OF assms] have "(255 :: 32 word) \<le> 208" by simp
  then show False by simp
qed

lemma Operand_const_literal:
  "isLiteral (Operand_const g v) \<longleftrightarrow> \<not> inline_constant v"
proof (cases "v \<le> 64")
  case True
  with inline_small [OF True] show ?thesis
    by (simp add: Operand_defs inline_constant_def Let_def)
next
  case False
  show ?thesis
  proof (cases "0xFFFFFFF0 \<le> v")
    case True
    with False inline_negative [OF True] show ?thesis
      by (simp add: Operand_defs inline_constant_def Let_def)
  next
    case n: False
    with False show ?thesis
      by (auto simp: Operand_defs inline_constant_def Let_def)
  qed
qed

lemma Operand_const_value:
  "isConstant (Operand_const g v) \<and> constantValue (Operand_const g v) = v"
  by (simp add: Operand_defs Let_def)

lemma Operand_const_regs:
  "(v \<le> 64 \<longrightarrow> physReg (Operand_const g v) = 128 + v) \<and>
   (0xFFFFFFF0 \<le> v \<longrightarrow> physReg (Operand_const g v) = 192 - v) \<and>
   (\<not> inline_constant v \<longrightarrow> physReg (Operand_const g v) = 255)"
  using inline_exclusive [of v]
  by (auto simp: Operand_defs inline_constant_def Let_def)

lemma Operand_const_floats:
  "physReg (Operand_const g 0x3f000000) = 240 \<and> physReg (Operand_const g 0xbf000000) = 241 \<and>
   physReg (Operand_const g 0x3f800000) = 242 \<and> physReg (Operand_const g 0xbf800000) = 243 \<and>
   physReg (Operand_const g 0x40000000) = 244 \<and> physReg (Operand_const g 0xc0000000) = 245 \<and>
   physReg (Operand_const g 0x40800000) = 246 \<and> physReg (Operand_const g 0xc0800000) = 247 \<and>
   physReg (Operand_const g 0x3e22f983) = 248"
  by (simp add: Operand_defs Let_def)

lemma emit_switch_break:
  assumes "format instr \<in> literal_formats"
    and "emit_switch self hw g ctx out instr = Some (c, ws, b)"
  shows "b \<and> (\<exists>enc. enc \<noteq> [] \<and> ws = out @ enc)"
proof (cases "derived instr")
  case No_payload
  with assms show ?thesis
    unfolding emit_switch_def literal_formats_def
    by (auto simp: bind_eq_Some_conv Format_defs split: if_splits)
next
  case (SOPK_payload imm)
  with assms show ?thesis
    unfolding emit_switch_def literal_formats_def
    by (auto simp: bind_eq_Some_conv Format_defs split: if_splits)
next
  case (SOPP_payload imm block)
  with assms show ?thesis
    unfolding emit_switch_def literal_formats_def
    by (auto simp: bind_eq_Some_conv Format_defs split: if_splits)
next
  case (SMEM_payload glc nv)
  with assms show ?thesis
    unfolding emit_switch_def literal_formats_def
    by (auto simp: bind_eq_Some_conv Format_defs split: if_splits)
next
  case (VOP3A_payload abs3 opsel clamp omod neg3)
  with assms show ?thesis
    unfolding emit_switch_def literal_formats_def
    by (auto simp: bind_eq_Some_conv Format_defs split: if_splits)
next
  case (DPP_payload dpp_ctrl row_mask bank_mask abs2 neg2 bound_ctrl)
  with assms show ?thesis
    unfolding emit_switch_def literal_formats_def
    by (auto simp: bind_eq_Some_conv Format_defs split: if_splits)
next
  case (Interp_payload attribute component)
  with assms show ?thesis
    unfolding emit_switch_def literal_formats_def
    by (auto simp: bind_eq_Some_conv Format_defs split: if_splits)
next
  case (DS_payload offset0 offset1 gds)
  with assms show ?thesis
    unfolding emit_switch_def literal_formats_def
    by (auto simp: bind_eq_Some_conv Format_defs split: if_splits)
next
  case (MUBUF_payload offset offen idxen glc slc tfe lds)
  with assms show ?thesis
    unfolding emit_switch_def literal_formats_def
    by (auto simp: bind_eq_Some_conv Format_defs split: if_splits)
next
  case (MIMG_payload dmask unrm glc slc tfe da lwe r128)
  with assms show ?thesis
    unfolding emit_switch_def literal_formats_def
    by (auto simp: bind_eq_Some_conv Format_defs split: if_splits)
next
  case (Export_payload enabled_mask dest compressed done_bit valid_mask)
  with assms show ?thesis
    unfolding emit_switch_def literal_formats_def
    by (auto simp: bind_eq_Some_conv Format_defs split: if_splits)
qed

lemma literal_formats_not_DPP: "format instr \<in> literal_formats \<Longrightarrow> \<not> isDPP instr"
  unfolding literal_formats_def isDPP_def
  by (auto simp: Format_defs)

lemma emit_instruction_literal_aux:
  assumes "format instr \<in> literal_formats"
    and "find isLiteral (operands instr) = Some lit"
    and "emit_instruction hw g ctx out instr = Some (ctx', out')"
  shows "\<exists>enc. enc \<noteq> [] \<and>
           emit_switch (emit_with (\<lambda>ctx out instr. None) hw g) hw g ctx out instr =
             Some (ctx', out @ enc, True) \<and>
           out' = out @ enc @ [constantValue lit]"
proof -
  from assms(3) obtain ws b where
    s: "emit_switch (emit_with (\<lambda>ctx out instr. None) hw g) hw g ctx out instr = Some (ctx', ws, b)"
    and o: "out' = (if b then append_literal ws instr else ws)"
    by (auto simp: emit_instruction_def emit_with_def [of "emit_with (\<lambda>ctx out instr. None) hw g"]
          bind_eq_Some_conv)
  from emit_switch_break [OF assms(1) s] obtain enc where
    "b" "enc \<noteq> []" "ws = out @ enc" by blast
  with s o assms(2) show ?thesis
    by (auto simp: append_literal_def)
qed

lemma emit_switch_self:
  assumes "\<not> isDPP instr"
  shows "emit_switch self hw g ctx out instr = emit_switch self2 hw g ctx out instr"
  using assms unfolding emit_switch_def by simp

lemma emit_instruction_not_DPP:
  assumes "\<not> isDPP instr"
  shows "emit_instruction hw g ctx out instr = emit_with (\<lambda>ctx out instr. None) hw g ctx out instr"
  unfolding emit_instruction_def emit_with_def [of _ hw g ctx out instr]
  by (simp add: emit_switch_self [OF assms, of "emit_with (\<lambda>ctx out instr. None) hw g" hw g ctx out
        "\<lambda>ctx out instr. None"])

lemma without_dpp_not_DPP: "\<not> isDPP (without_dpp g instr)"
  by (simp add: without_dpp_def isDPP_def and.assoc)

lemma emit_switch_pseudo:
  assumes "format instr = Format_PSEUDO"
  shows "emit_switch self hw g ctx out instr = Some (ctx, out, True)"
  using assms unfolding emit_switch_def by (simp add: Format_defs)

lemma emit_switch_return:
  assumes "format instr = Format_SMEM \<or>
           format instr \<notin> literal_formats \<and> format instr \<noteq> Format_PSEUDO \<and>
           format instr AND Format_VOP3A \<noteq> 0"
    and "emit_switch self hw g ctx out instr = Some (c, ws, b)"
  shows "\<not> b \<and> c = ctx \<and> (\<exists>w1 w2. ws = out @ [w1, w2])"
proof (cases "derived instr")
  case No_payload
  with assms show ?thesis
    unfolding emit_switch_def literal_formats_def
    by (auto simp: bind_eq_Some_conv Format_defs split: if_splits)
next
  case (SOPK_payload imm)
  with assms show ?thesis
    unfolding emit_switch_def literal_formats_def
    by (auto simp: bind_eq_Some_conv Format_defs split: if_splits)
next
  case (SOPP_payload imm block)
  with assms show ?thesis
    unfolding emit_switch_def literal_formats_def
    by (auto simp: bind_eq_Some_conv Format_defs split: if_splits)
next
  case (SMEM_payload glc nv)
  with assms show ?thesis
    unfolding emit_switch_def literal_formats_def
    by (auto simp: bind_eq_Some_conv Format_defs split: if_splits)
next
  case (VOP3A_payload abs3 opsel clamp omod neg3)
  with assms show ?thesis
    unfolding emit_switch_def literal_formats_def
    by (auto simp: bind_eq_Some_conv Format_defs Let_def split: if_splits)
next
  case (DPP_payload dpp_ctrl row_mask bank_mask abs2 neg2 bound_ctrl)
  with assms show ?thesis
    unfolding emit_switch_def literal_formats_def
    by (auto simp: bind_eq_Some_conv Format_defs split: if_splits)
next
  case (Interp_payload attribute component)
  with assms show ?thesis
    unfolding emit_switch_def literal_formats_def
    by (auto simp: bind_eq_Some_conv Format_defs split: if_splits)
next
  case (DS_payload offset0 offset1 gds)
  with assms show ?thesis
    unfolding emit_switch_def literal_formats_def
    by (auto simp: bind_eq_Some_conv Format_defs split: if_splits)
next
  case (MUBUF_payload offset offen idxen glc slc tfe lds)
  with assms show ?thesis
    unfolding emit_switch_def literal_formats_def
    by (auto simp: bind_eq_Some_conv Format_defs split: if_splits)
next
  case (MIMG_payload dmask unrm glc slc tfe da lwe r128)
  with assms show ?thesis
    unfolding emit_switch_def literal_formats_def
    by (auto simp: bind_eq_Some_conv Format_defs split: if_splits)
next
  case (Export_payload enabled_mask dest compressed done_bit valid_mask)
  with assms show ?thesis
    unfolding emit_switch_def literal_formats_def
    by (auto simp: bind_eq_Some_conv Format_defs split: if_splits)
qed

lemma emit_switch_dpp:
  assumes "format instr \<notin> literal_formats" "format instr \<noteq> Format_PSEUDO"
    "format instr \<noteq> Format_SMEM" "format instr AND Format_VOP3A = 0"
    and "emit_switch self hw g ctx out instr = Some (c, ws, b)"
  shows "isDPP instr \<and> \<not> b \<and>
         (\<exists>o1 w. self ctx out (without_dpp g instr) = Some (c, o1) \<and> ws = o1 @ [w])"
proof -
  from assms have d: "isDPP instr"
    unfolding emit_switch_def literal_formats_def by (auto split: if_splits)
  with assms have
    "(do {
        dpp_op \<leftarrow> getOperand instr 0;
        (ctx', out') \<leftarrow> self ctx out (without_dpp g instr);
        case derived instr of
          DPP_payload dpp_ctrl row_mask bank_mask abs2 neg2 bound_ctrl \<Rightarrow>
            Some (ctx',
                  out' @ [push_bit 28 (0xF AND ucast row_mask) OR
                          push_bit 24 (0xF AND ucast bank_mask) OR
                          push_bit 23 (word_of_flag (snd abs2)) OR
                          push_bit 22 (word_of_flag (snd neg2)) OR
                          push_bit 21 (word_of_flag (fst abs2)) OR
                          push_bit 20 (word_of_flag (fst neg2)) OR
                          push_bit 19 (word_of_flag bound_ctrl) OR
                          push_bit 8 (ucast dpp_ctrl) OR (0xFF AND physReg dpp_op)],
                  False)
        | _ \<Rightarrow> None }) = Some (c, ws, b)"
    unfolding emit_switch_def literal_formats_def without_dpp_def
    by (simp add: Let_def split: if_splits)
  then have "\<not> b \<and> (\<exists>o1 w. self ctx out (without_dpp g instr) = Some (c, o1) \<and> ws = o1 @ [w])"
    by (cases "derived instr") (auto simp: bind_eq_Some_conv)
  with d show ?thesis by simp
qed

lemma emit_instruction_return:
  assumes "format instr = Format_SMEM \<or>
           format instr \<notin> literal_formats \<and> format instr \<noteq> Format_PSEUDO \<and>
           format instr AND Format_VOP3A \<noteq> 0"
    and "emit_instruction hw g ctx out instr = Some (ctx', out')"
  shows "ctx' = ctx \<and> (\<exists>w1 w2. out' = out @ [w1, w2])"
proof -
  from assms(2) obtain ws b where
    s: "emit_switch (emit_with (\<lambda>ctx out instr. None) hw g) hw g ctx out instr = Some (ctx', ws, b)"
    and o: "out' = (if b then append_literal ws instr else ws)"
    by (auto simp: emit_instruction_def emit_with_def [of "emit_with (\<lambda>ctx out instr. None) hw g"]
          bind_eq_Some_conv)
  from emit_switch_return [OF assms(1) s] o show ?thesis by auto
qed

lemma emit_instruction_dpp:
  assumes "format instr \<notin> literal_formats" "format instr \<noteq> Format_PSEUDO"
    "format instr \<noteq> Format_SMEM" "format instr AND Format_VOP3A = 0"
    and "emit_instruction hw g ctx out instr = Some (ctx', out')"
  shows "isDPP instr \<and>
         (\<exists>o1 w. emit_instruction hw g ctx out (without_dpp g instr) = Some (ctx', o1) \<and>
                  out' = o1 @ [w])"
proof -
  from assms(5) obtain ws b where
    s: "emit_switch (emit_with (\<lambda>ctx out instr. None) hw g) hw g ctx out instr = Some (ctx', ws, b)"
    and o: "out' = (if b then append_literal ws instr else ws)"
    by (auto simp: emit_instruction_def emit_with_def [of "emit_with (\<lambda>ctx out instr. None) hw g"]
          bind_eq_Some_conv)
  from emit_switch_dpp [OF assms(1-4) s] o
  show ?thesis by (auto simp: emit_instruction_not_DPP [OF without_dpp_not_DPP])
qed

lemma emit_instruction_pseudo:
  assumes "format instr = Format_PSEUDO"
  shows "emit_instruction hw g ctx out instr = Some (ctx, append_literal out instr)"
  by (simp add: emit_instruction_def emit_with_def [of "emit_with (\<lambda>ctx out instr. None) hw g"]
        emit_switch_pseudo [OF assms])



lemma fix_exports_length:
  "fix_exports_blocks g todo passed = Some bs \<Longrightarrow> length bs = length todo + length passed"
  by (induction g todo passed rule: fix_exports_blocks.induct)
     (auto split: list.splits option.splits)

lemmas example_asm_defs =
  emit_program_def fix_exports_def example_program_def example_branch_def
  example_nop_def example_endpgm_def example_export_def example_hw_def
  emit_instruction_def emit_with_def emit_switch_def Format_defs append_literal_def
  fix_branches_def branches_insert_def nth_opt_def Operand_defs zero_operand_def
  definitionCount_def getDefinition_def operand_reg_def getOperand_def operandCount_def
  definition_reg_def zero_definition_def Definition_phys_def word_of_flag_def



lemma example_emit_sop1:
  "emit_instruction example_hw zero_operand (empty_context 0) [] example_sop1 =
     Some (empty_context 0, [0xBE8000FF, 0x12345678])"
  by (simp add: example_asm_defs example_sop1_def empty_context_def)

lemma example_emit_vop3a:
  "emit_instruction example_hw zero_operand (empty_context 0) [] example_vop3a =
     Some (empty_context 0, [0xD1000000, 0x000202FF])"
  by (simp add: example_asm_defs example_vop3a_def empty_context_def enumerate_eq_zip upt_rec)

lemma example_emit_dpp:
  "emit_instruction example_hw zero_operand (empty_context 0) [] example_dpp =
     Some (empty_context 0, [0x0001FEFA, 0x12345678, 0xFF000001])"
  by (simp add: example_asm_defs example_dpp_def empty_context_def isDPP_def)

lemma example_emit_without_dpp:
  "emit_instruction example_hw zero_operand (empty_context 0) []
     (without_dpp zero_operand example_dpp) =
     Some (empty_context 0, [0x0001FEFA, 0x12345678])"
  by (simp add: example_asm_defs example_dpp_def empty_context_def isDPP_def without_dpp_def)









subsection \<open>Lowering of boolean phis: what the construction of linear phis changes\<close>




lemma program_rewrite_blocks:
  assumes "blocks Q = blocks P"
  shows "program_rewrite P Q"
  using assms by (simp add: program_rewrite_def phi_rewrite.same)

lemma program_rewrite_allocateId:
  assumes "allocateId P = (n, Q)"
  shows "program_rewrite P Q"
  using assms by (auto simp: allocateId_def intro: program_rewrite_blocks)





















lemma set_instructions_length [simp]:
  "length (blocks (set_instructions b xs P)) = length (blocks P)"
  by (simp add: set_instructions_def)

lemma set_instructions_allocationID [simp]:
  "allocationID (set_instructions b xs P) = allocationID P"
  by (simp add: set_instructions_def)


























lemma example_lower_bool_phis:
  "map_option (\<lambda>P. map (\<lambda>B. map opcode (instructions B)) (blocks P))
     (lower_bool_phis example_env 16 example_if_program)
   = Some [[other_opcode 1, s_mov_b64, p_logical_end, other_opcode 0],
           [other_opcode 2, s_cselect_b64, s_andn2_b64, s_and_b64, s_or_b64, p_logical_end,
            other_opcode 0],
           [p_linear_phi, s_mov_b64, s_endpgm]]"
  by code_simp

subsection \<open>The lowering returns: every call of get_ssa ends\<close>

















lemma set_instructions_linear [simp]:
  "linear_predecessors (blocks (set_instructions b xs P) ! c) = linear_predecessors (blocks P ! c)"
  by (cases "c = b"; cases "b < length (blocks P)")
     (simp_all add: set_instructions_def list_update_beyond)

lemma set_instructions_logical [simp]:
  "logical_predecessors (blocks (set_instructions b xs P) ! c) = logical_predecessors (blocks P ! c)"
  by (cases "c = b"; cases "b < length (blocks P)")
     (simp_all add: set_instructions_def list_update_beyond)








































subsection \<open>What get_ssa returns\<close>






subsection \<open>The code of an edge\<close>



text \<open>
  The pass on the loop of one block. For the edge from the block to itself the
  instructions of the block are out of it while its phi is lowered, so the code of the
  edge comes to stand at the head of the block, before the definition of its operand.
\<close>

lemma example_self_edge:
  "map_option (\<lambda>P. map (\<lambda>B. map opcode (instructions B)) (blocks P))
     (lower_bool_phis example_env 16 example_loop_program)
   = Some [[other_opcode 1, s_mov_b64, p_logical_end, other_opcode 0],
           [p_linear_phi, s_andn2_b64, s_and_b64, s_or_b64, s_mov_b64, other_opcode 2,
            p_logical_end, other_opcode 0]]"
  by code_simp

section \<open>Results\<close>

text \<open>
  C2. For a program whose demand passes the allocator's assertion,
  \<^verbatim>\<open>register_allocation\<close> picks an entry of the table that fits the demand, no fixed
  entry that fits is smaller in either component, the open last entry is taken only
  when no fixed entry fits, and it stores \<open>num_vgprs = max_vgpr\<close> and
  \<open>num_sgprs = max_sgpr + 2\<close>. With scalar demand 30 and vector demand 20 this is
  \<open>num_vgprs = 24\<close> and \<open>num_sgprs = 48\<close>.
\<close>

theorem register_allocation_table:
  assumes "program_vgpr_demand program \<le> 256" and "program_sgpr_demand program \<le> 100"
  shows "\<exists>ms mv.
           register_bounds program = Inr (ms, mv) \<and>
           in_table (ms, mv) \<and>
           fits program (ms, mv) \<and>
           (\<forall>e \<in> set wave_table. fits program e \<longrightarrow> ms \<le> fst e \<and> mv \<le> snd e) \<and>
           ((ms, mv) \<notin> set wave_table \<longrightarrow> (\<forall>e \<in> set wave_table. \<not> fits program e)) \<and>
           (\<exists>program'. register_allocation program = Inr program' \<and>
              num_vgprs (config program') = mv \<and>
              num_sgprs (config program') = ms + 2) \<and>
           (program_sgpr_demand program = 30 \<and> program_vgpr_demand program = 20 \<longrightarrow>
              (\<exists>program'. register_allocation program = Inr program' \<and>
                 num_vgprs (config program') = 24 \<and> num_sgprs (config program') = 48))"
proof -
  from assms obtain e where "register_bounds program = Inr e"
    using register_bounds_total by blast
  then obtain ms mv where b: "register_bounds program = Inr (ms, mv)"
    by (cases e) simp
  have t: "in_table (ms, mv)"
    using b by (rule register_bounds_in_table)
  have f: "fits program (ms, mv)"
    using b by (rule register_bounds_fits)
  have l: "\<forall>e \<in> set wave_table. fits program e \<longrightarrow> ms \<le> fst e \<and> mv \<le> snd e"
    using register_bounds_least [OF b] by simp
  have o: "(ms, mv) \<notin> set wave_table \<longrightarrow> (\<forall>e \<in> set wave_table. \<not> fits program e)"
    using register_bounds_last [OF b] by blast
  have c: "\<exists>program'. register_allocation program = Inr program' \<and>
             num_vgprs (config program') = mv \<and> num_sgprs (config program') = ms + 2"
    using b by (simp add: register_allocation_def)
  have x: "program_sgpr_demand program = 30 \<and> program_vgpr_demand program = 20 \<longrightarrow>
             (\<exists>program'. register_allocation program = Inr program' \<and>
                num_vgprs (config program') = 24 \<and> num_sgprs (config program') = 48)"
    by (simp add: register_allocation_def register_bounds_example)
  from b t f l o c x show ?thesis by blast
qed

theorem register_allocation_table_witness:
  "program_vgpr_demand \<lparr>program_vgpr_demand = 20, program_sgpr_demand = 30,
                 config = \<lparr>num_vgprs = 0, num_sgprs = 0\<rparr>\<rparr> \<le> 256 \<and>
   program_sgpr_demand \<lparr>program_vgpr_demand = 20, program_sgpr_demand = 30,
                 config = \<lparr>num_vgprs = 0, num_sgprs = 0\<rparr>\<rparr> \<le> 100 \<and>
   fits \<lparr>program_vgpr_demand = 20, program_sgpr_demand = 30,
         config = \<lparr>num_vgprs = 0, num_sgprs = 0\<rparr>\<rparr> (46, 24) \<and>
   register_bounds \<lparr>program_vgpr_demand = 20, program_sgpr_demand = 30,
                    config = \<lparr>num_vgprs = 0, num_sgprs = 0\<rparr>\<rparr> = Inr (46, 24) \<and>
   register_allocation \<lparr>program_vgpr_demand = 20, program_sgpr_demand = 30,
                        config = \<lparr>num_vgprs = 0, num_sgprs = 0\<rparr>\<rparr> =
     Inr \<lparr>program_vgpr_demand = 20, program_sgpr_demand = 30, config = \<lparr>num_vgprs = 24, num_sgprs = 48\<rparr>\<rparr>"
  using register_allocation_table
    [of "\<lparr>program_vgpr_demand = 20, program_sgpr_demand = 30, config = \<lparr>num_vgprs = 0, num_sgprs = 0\<rparr>\<rparr>"]
  by (simp add: register_allocation_def register_bounds_def fits_def)

text \<open>
  C3 (as amended). When the demand fits the hardware limits (vector demand at most 256,
  scalar demand plus the VCC pair at most the max-addressable scalar index),
  \<open>num_waves = min(10, 256 / max(4, round4(v)), total_s / round8(s + 2))\<close> with
  \<open>total_s\<close> 800 or 512 and the max-addressable index 102 or 104 by chip class; where
  the vector demand is not zero this is the specification's formula.
\<close>

theorem live_var_analysis_num_waves:
  assumes "unat vgpr_demand \<le> 256"
    and "unat sgpr_demand + 2 \<le> unat (max_addressible_sgpr VI chip_class)"
  shows "unat (num_waves
           (live_var_analysis_demand VI True chip_class vgpr_demand sgpr_demand program)) =
           min 10 (min (256 div max 4 (round4 (unat vgpr_demand)))
                       (unat (total_sgpr_regs VI chip_class) div round8 (unat sgpr_demand + 2))) \<and>
         (0 < unat vgpr_demand \<longrightarrow>
            spec_num_waves (unat (total_sgpr_regs VI chip_class))
              (unat vgpr_demand) (unat sgpr_demand) =
            Some (unat (num_waves
              (live_var_analysis_demand VI True chip_class vgpr_demand sgpr_demand program)))) \<and>
         unat (total_sgpr_regs VI chip_class) = (if chip_class \<ge> VI then 800 else 512) \<and>
         unat (max_addressible_sgpr VI chip_class) = (if chip_class \<ge> VI then 102 else 104)"
  using num_waves_clamped [OF assms] num_waves_spec [OF _ assms]
  by (simp add: total_sgpr_regs_def max_addressible_sgpr_def)

theorem live_var_analysis_num_waves_witness:
  "unat (64 :: 16 word) \<le> 256 \<and>
   unat (30 :: 16 word) + 2 \<le> unat (max_addressible_sgpr 10 10) \<and>
   num_waves (live_var_analysis_demand 10 True 10 64 30
     \<lparr>num_waves = 0, max_sgpr = 0, max_vgpr = 0\<rparr>) = 4 \<and>
   spec_num_waves 800 64 30 = Some 4"
  using live_var_analysis_num_waves [of 64 30 10 10 "\<lparr>num_waves = 0, max_sgpr = 0, max_vgpr = 0\<rparr>"]
  by (simp add: max_addressible_sgpr_def total_sgpr_regs_def live_var_analysis_demand_def
        spec_num_waves_def round4_def round8_def)

text \<open>
  C3 as stated fails for a program with no vector demand: the specification's formula
  divides by \<open>round4(0) = 0\<close> and has no value (and the value 0 where a division by
  zero is read as 0), while the code clamps the rounded demand to 4 and records 10 waves.
\<close>

theorem live_var_analysis_num_waves_counterexample:
  "unat (0 :: 16 word) \<le> 256 \<and> unat (0 :: 16 word) + 2 \<le> unat (max_addressible_sgpr 10 10) \<and>
   num_waves (live_var_analysis_demand 10 True 10 0 0
     \<lparr>num_waves = 0, max_sgpr = 0, max_vgpr = 0\<rparr>) = 10 \<and>
   spec_num_waves (unat (total_sgpr_regs 10 10)) (unat (0 :: 16 word)) (unat (0 :: 16 word)) \<noteq>
     Some (unat (num_waves (live_var_analysis_demand 10 True 10 0 0
       \<lparr>num_waves = 0, max_sgpr = 0, max_vgpr = 0\<rparr>))) \<and>
   round4 0 = 0 \<and>
   min 10 (min (256 div round4 0) (800 div round8 (0 + 2))) = (0 :: nat)"
  by (simp add: max_addressible_sgpr_def total_sgpr_regs_def live_var_analysis_demand_def
        spec_num_waves_def round4_def round8_def)

text \<open>
  C6 at a concrete input. A scalar demand of 65534 or 65535 exceeds the max-addressable
  scalar index of either chip class, but \<^verbatim>\<open>sgpr_demand += 2\<close> wraps the 16-bit counter
  to 0 or 1, the test \<^verbatim>\<open>sgpr_demand > max_addressible_sgpr\<close> is false, and the pass
  records 10 waves instead of 0. For every scalar demand up to 65533 the pass records
  \<open>num_waves = 0\<close> as soon as a demand exceeds its limit (lemma
  \<open>num_waves_exhausted_below\<close>).
\<close>

theorem live_var_analysis_exhausted_wraps:
  "unat (max_addressible_sgpr VI chip_class) < unat (65534 :: 16 word) \<and>
   num_waves (live_var_analysis_demand VI True chip_class 0 65534 program) = 10 \<and>
   num_waves (live_var_analysis_demand VI True chip_class 0 65535 program) = 10"
  by (simp add: live_var_analysis_demand_def max_addressible_sgpr_def total_sgpr_regs_def)

text \<open>The same on a VI chip, for a program that had 7 waves recorded before.\<close>

theorem live_var_analysis_exhausted_wraps_witness:
  "unat (max_addressible_sgpr 10 10) = 102 \<and>
   live_var_analysis_demand 10 True 10 0 65534 \<lparr>num_waves = 7, max_sgpr = 0, max_vgpr = 0\<rparr> =
     \<lparr>num_waves = 10, max_sgpr = 78, max_vgpr = 24\<rparr>"
  using live_var_analysis_exhausted_wraps
    [of 10 10 "\<lparr>num_waves = 7, max_sgpr = 0, max_vgpr = 0\<rparr>"]
  by (simp add: live_var_analysis_demand_def max_addressible_sgpr_def total_sgpr_regs_def)

text \<open>
  C10. For a shader whose stage is not fragment, \<^verbatim>\<open>aco_compile_shader\<close> returns with
  the binary, the config, the info and the error stream exactly as they were; for a
  fragment shader the binary holds what the pipeline emitted.
\<close>

theorem aco_compile_shader_fragment_only:
  "(stage \<noteq> MESA_SHADER_FRAGMENT \<longrightarrow> aco_compile_shader P stage shader options st = st) \<and>
   (stage = MESA_SHADER_FRAGMENT \<longrightarrow>
      code (out_binary (aco_compile_shader P stage shader options st)) =
        snd (run_emit_program P (insert_wait_states P (schedule P (eliminate_pseudo_instr P
          (run_register_allocation P
            (select_program P shader \<lparr>num_vgprs = 0, num_sgprs = 0\<rparr> (zeroed_info P) options)))))) \<and>
      length (out_stderr (aco_compile_shader P stage shader options st)) =
        length (out_stderr st) + 16)"
  by (simp add: aco_compile_shader_def Let_def split: prod.split)

theorem aco_compile_shader_fragment_only_witness:
  "MESA_SHADER_VERTEX \<noteq> MESA_SHADER_FRAGMENT \<and>
   aco_compile_shader example_pipeline MESA_SHADER_VERTEX () () example_driver_state =
     example_driver_state \<and>
   out_binary (aco_compile_shader example_pipeline MESA_SHADER_FRAGMENT () ()
     example_driver_state) = \<lparr>code = [1], code_size = 4\<rparr> \<and>
   out_config (aco_compile_shader example_pipeline MESA_SHADER_FRAGMENT () ()
     example_driver_state) = \<lparr>num_vgprs = 24, num_sgprs = 48\<rparr>"
  using aco_compile_shader_fragment_only
    [of MESA_SHADER_VERTEX example_pipeline "()" "()" example_driver_state]
  by (simp add: aco_compile_shader_def example_pipeline_def example_driver_state_def Let_def)

text \<open>
  C1 (as amended). A visit of a phi whose block follows an \<^verbatim>\<open>if\<close> leaves the phi's result
  marked divergent if and only if it was marked already, or an operand is divergent, or
  at least two operands are not undefs and the condition of the \<^verbatim>\<open>if\<close> is divergent.
\<close>

theorem visit_phi_gamma:
  assumes "block_prev instr = Some (nir_cf_node_if cond)"
    and "visit_phi divergent instr = Some (t, changed)"
  shows "length t = length divergent \<and> phi_dest instr < length t \<and>
         (t ! phi_dest instr \<longleftrightarrow>
            divergent ! phi_dest instr \<or>
            (\<exists>src \<in> set (phi_srcs instr). divergent ! phi_src_index src) \<or>
            (2 \<le> length (filter (\<lambda>src. \<not> phi_src_is_undef src) (phi_srcs instr)) \<and>
             divergent ! cond))"
  using assms by (rule visit_phi_gamma_aux)

theorem visit_phi_gamma_witness:
  "block_prev example_gamma = Some (nir_cf_node_if 0) \<and>
   visit_phi [True, False, False, False] example_gamma =
     Some ([True, False, False, True], True) \<and>
   [True, False, False, True] ! phi_dest example_gamma"
proof -
  have p: "block_prev example_gamma = Some (nir_cf_node_if 0)"
    by (simp add: example_gamma_def)
  have v: "visit_phi [True, False, False, False] example_gamma =
             Some ([True, False, False, True], True)"
    by (simp add: example_gamma_def visit_phi_def phi_condition_divergent_def rd_def wr_def)
  from visit_phi_gamma [OF p v] p v show ?thesis by (simp add: example_gamma_def)
qed

text \<open>
  C1 as stated fails for a phi with a single operand that is not an undef: the condition
  of the \<^verbatim>\<open>if\<close> (value 0) is divergent, and the visit leaves the phi's result (value 3)
  uniform.
\<close>

theorem visit_phi_gamma_counterexample:
  "block_prev example_gamma_undef = Some (nir_cf_node_if 0) \<and>
   [True, False, False, False] ! 0 \<and>
   visit_phi [True, False, False, False] example_gamma_undef =
     Some ([True, False, False, False], False) \<and>
   \<not> [True, False, False, False] ! phi_dest example_gamma_undef"
  by (simp add: example_gamma_undef_def visit_phi_def rd_def wr_def)

text \<open>
  C8. In a function in SSA form (no index is defined by two instructions), starting from
  the all-uniform map and after any sequence of visits of the function's instructions, a
  further visit of any instruction keeps every value that is marked divergent marked
  divergent; and whatever \<^verbatim>\<open>nir_divergence_analysis\<close> returns is the map after such a
  sequence of visits.
\<close>

theorem divergence_monotone:
  assumes "ssa_form impl"
    and "set visited \<subseteq> set (impl_instrs impl)"
    and "visit_all (replicate (ssa_alloc impl) False) visited = Some t"
    and "instr \<in> set (impl_instrs impl)"
    and "visit_instr t instr = Some (u, changed)"
  shows "length u = length t \<and> (\<forall>i < length t. t ! i \<longrightarrow> u ! i) \<and>
         (\<forall>fuel r. nir_divergence_analysis fuel impl = Some r \<longrightarrow>
            (\<exists>all_visited. set all_visited \<subseteq> set (impl_instrs impl) \<and>
               visit_all (replicate (ssa_alloc impl) False) all_visited = Some r))"
proof -
  have "uniform_kept impl t"
    using visit_all_kept [OF assms(1,2) uniform_kept_initial assms(3)] by simp
  from visit_instr_step [OF assms(1,4) this assms(5)] have "grows t u" by simp
  then show ?thesis
    by (auto simp: grows_def nir_divergence_analysis_def dest: divergence_loop_visits)
qed

theorem divergence_monotone_witness:
  "ssa_form example_impl \<and>
   set [Load_const 0, example_input] \<subseteq> set (impl_instrs example_impl) \<and>
   visit_all (replicate (ssa_alloc example_impl) False) [Load_const 0, example_input] =
     Some [False, True, False] \<and>
   example_alu \<in> set (impl_instrs example_impl) \<and>
   visit_instr [False, True, False] example_alu = Some ([False, True, True], True) \<and>
   [False, True, True] ! 1"
proof -
  have s: "set [Load_const 0, example_input] \<subseteq> set (impl_instrs example_impl)"
    and i: "example_alu \<in> set (impl_instrs example_impl)"
    by (simp_all add: impl_instrs_def example_impl_def)
  from divergence_monotone
    [OF example_impl_ssa_form s example_impl_visited i example_impl_visit_alu]
  show ?thesis
    using example_impl_ssa_form s example_impl_visited i example_impl_visit_alu by simp
qed




text \<open>
  C9 (as amended). The constructor of a constant operand gives the inline register
  \<open>128 + v\<close> to 0..64, \<open>192 - v\<close> (193..208) to -16..-1, 240..248 to the nine float
  patterns, and marks every other constant literal, with register 255. For an instruction
  of the formats SOP2, SOPK, SOP1, SOPC, SOPP, VOP2, VOP1, VOPC, VINTRP, DS, MUBUF, MIMG and
  EXP, \<^verbatim>\<open>emit_instruction\<close> appends the instruction's encoding and then the value of its
  first literal operand as the last word. A PSEUDO instruction has no encoding and only
  its literal word, if any, is appended. An instruction of format SMEM, or in VOP3A
  encoding, is emitted as the two words of its encoding and nothing else. Every other
  instruction that is emitted is a DPP instruction: what \<^verbatim>\<open>emit_instruction\<close> appends
  for the instruction with its DPP bit cleared and operand 0 replaced by register 250
  (with that instruction's literal word, if it has one), and then the DPP word as the
  last word.
\<close>

theorem operand_literal_encoding:
  "isConstant (Operand_const g0 v) \<and> constantValue (Operand_const g0 v) = v \<and>
   (isLiteral (Operand_const g0 v) \<longleftrightarrow> \<not> inline_constant v) \<and>
   (v \<le> 64 \<longrightarrow> physReg (Operand_const g0 v) = 128 + v) \<and>
   (0xFFFFFFF0 \<le> v \<longrightarrow> physReg (Operand_const g0 v) = 192 - v \<and>
      193 \<le> 192 - v \<and> 192 - v \<le> 208) \<and>
   physReg (Operand_const g0 0x3f000000) = 240 \<and> physReg (Operand_const g0 0xbf000000) = 241 \<and>
   physReg (Operand_const g0 0x3f800000) = 242 \<and> physReg (Operand_const g0 0xbf800000) = 243 \<and>
   physReg (Operand_const g0 0x40000000) = 244 \<and> physReg (Operand_const g0 0xc0000000) = 245 \<and>
   physReg (Operand_const g0 0x40800000) = 246 \<and> physReg (Operand_const g0 0xc0800000) = 247 \<and>
   physReg (Operand_const g0 0x3e22f983) = 248 \<and>
   (\<not> inline_constant v \<longrightarrow> physReg (Operand_const g0 v) = 255) \<and>
   (format instr \<in> literal_formats \<and> find isLiteral (operands instr) = Some lit \<and>
    emit_instruction hw g ctx out instr = Some (ctx', out') \<longrightarrow>
      (\<exists>enc. enc \<noteq> [] \<and>
         emit_switch (emit_with (\<lambda>ctx out instr. None) hw g) hw g ctx out instr =
           Some (ctx', out @ enc, True) \<and>
         out' = out @ enc @ [constantValue lit])) \<and>
   (format pseudo = Format_PSEUDO \<longrightarrow>
      emit_instruction hw g ctx out pseudo =
        Some (ctx, case find isLiteral (operands pseudo) of
                     None \<Rightarrow> out | Some l \<Rightarrow> out @ [constantValue l])) \<and>
   ((format ret = Format_SMEM \<or>
     format ret \<notin> literal_formats \<and> format ret \<noteq> Format_PSEUDO \<and>
     format ret AND Format_VOP3A \<noteq> 0) \<and>
    emit_instruction hw g ctx out ret = Some (ctx2, out2) \<longrightarrow>
      ctx2 = ctx \<and> (\<exists>w1 w2. out2 = out @ [w1, w2])) \<and>
   (format dpp \<notin> literal_formats \<and> format dpp \<noteq> Format_PSEUDO \<and>
    format dpp \<noteq> Format_SMEM \<and> format dpp AND Format_VOP3A = 0 \<and>
    emit_instruction hw g ctx out dpp = Some (ctx3, out3) \<longrightarrow>
      isDPP dpp \<and>
      (\<exists>o1 w. emit_instruction hw g ctx out (without_dpp g dpp) = Some (ctx3, o1) \<and>
               out3 = o1 @ [w]))"
  using Operand_const_value [of g0 v] Operand_const_literal [of g0 v] Operand_const_regs [of v g0]
    Operand_const_floats [of g0] inline_negative_range [of v]
    emit_instruction_literal_aux [of instr lit hw g ctx out ctx' out']
    emit_instruction_pseudo [of pseudo hw g ctx out, unfolded append_literal_def]
    emit_instruction_return [of ret hw g ctx out ctx2 out2]
    emit_instruction_dpp [of dpp hw g ctx out ctx3 out3]
  by blast

text \<open>
  The theorem at a SOP1 instruction with a literal operand, at an instruction in VOP3A
  encoding, and at a VOP2 instruction with a DPP operand and a literal: the literal
  follows the VOP2 word and the DPP word comes last.
\<close>

theorem operand_literal_encoding_witness:
  "format example_sop1 \<in> literal_formats \<and>
   find isLiteral (operands example_sop1) = Some (Operand_const zero_operand 0x12345678) \<and>
   \<not> inline_constant 0x12345678 \<and>
   emit_instruction example_hw zero_operand (empty_context 0) [] example_sop1 =
     Some (empty_context 0, [] @ [0xBE8000FF] @ [0x12345678]) \<and>
   format example_vop3a \<notin> literal_formats \<and> format example_vop3a \<noteq> Format_PSEUDO \<and>
   format example_vop3a AND Format_VOP3A \<noteq> 0 \<and>
   emit_instruction example_hw zero_operand (empty_context 0) [] example_vop3a =
     Some (empty_context 0, [] @ [0xD1000000, 0x000202FF]) \<and>
   format example_dpp \<notin> literal_formats \<and> format example_dpp \<noteq> Format_PSEUDO \<and>
   format example_dpp \<noteq> Format_SMEM \<and> format example_dpp AND Format_VOP3A = 0 \<and>
   isDPP example_dpp \<and>
   emit_instruction example_hw zero_operand (empty_context 0) []
     (without_dpp zero_operand example_dpp) =
     Some (empty_context 0, [0x0001FEFA, 0x12345678]) \<and>
   emit_instruction example_hw zero_operand (empty_context 0) [] example_dpp =
     Some (empty_context 0, [0x0001FEFA, 0x12345678] @ [0xFF000001])"
proof -
  have f: "format example_sop1 \<in> literal_formats"
    by (simp add: example_sop1_def literal_formats_def)
  have n: "\<not> inline_constant 0x12345678"
    by (simp add: inline_constant_def)
  have l: "find isLiteral (operands example_sop1) = Some (Operand_const zero_operand 0x12345678)"
    by (simp add: example_sop1_def Operand_defs zero_operand_def)
  have r: "format example_vop3a \<notin> literal_formats" "format example_vop3a \<noteq> Format_PSEUDO"
    "format example_vop3a AND Format_VOP3A \<noteq> 0"
    by (simp_all add: example_vop3a_def literal_formats_def Format_defs)
  have d: "format example_dpp \<notin> literal_formats" "format example_dpp \<noteq> Format_PSEUDO"
    "format example_dpp \<noteq> Format_SMEM" "format example_dpp AND Format_VOP3A = 0"
    by (simp_all add: example_dpp_def literal_formats_def Format_defs)
  from operand_literal_encoding
    [of zero_operand "0x12345678" example_sop1 "Operand_const zero_operand 0x12345678"
      example_hw zero_operand "empty_context 0" "[]" "empty_context 0" "[0xBE8000FF, 0x12345678]"
      "create_instruction p_logical_end Format_PSEUDO 0 0"
      example_vop3a "empty_context 0" "[0xD1000000, 0x000202FF]"
      example_dpp "empty_context 0" "[0x0001FEFA, 0x12345678, 0xFF000001]"]
  show ?thesis
    using f n l r d example_emit_sop1 example_emit_vop3a example_emit_dpp example_emit_without_dpp
    by simp
qed

text \<open>
  C9 as stated fails for an instruction in VOP3A encoding: its first operand is the
  literal \<open>0x12345678\<close>, and \<^verbatim>\<open>emit_instruction\<close> returns after the two words of the
  encoding without appending it.
\<close>

theorem operand_literal_encoding_counterexample:
  "isLiteral (hd (operands example_vop3a)) \<and>
   constantValue (hd (operands example_vop3a)) = 0x12345678 \<and>
   emit_instruction example_hw zero_operand (empty_context 0) [] example_vop3a =
     Some (empty_context 0, [0xD1000000, 0x000202FF]) \<and>
   0x12345678 \<notin> set [0xD1000000, 0x000202FF :: 32 word]"
  using example_emit_vop3a
  by (simp add: example_vop3a_def Operand_defs zero_operand_def)

subsection \<open>Spill slots\<close>

text \<open>
  C4 (second half, at a concrete input). Slot assignment succeeds on
  \<^const>\<open>example_spill_ctx\<close> with room for two linear vgprs; the loop over the scalar ids
  takes 64 passes. Id 7, a scalar spill of two dwords, receives slot 63: its dwords 63
  and 64 lie in two linear vgprs. The test of \<open>i div 64\<close> against \<open>slot_idx div 64\<close> is
  made for the vector ids only, while the scalar ids are the ones stored in linear vgprs.
\<close>

theorem assign_spill_slots_straddles:
  "map_option (\<lambda>st. (map (sgpr_slot st) [0 ..< 8], vgpr_slot st 7,
                    length (spill_slot_interferences st)))
     (assign_spill_slots 64 example_spill_ctx 2)
   = Some ([Some 0, Some 16, Some 32, Some 48, Some 56, Some 60, Some 62, Some 63], None, 65)
   \<and> typeOf (fst (interferences example_spill_ctx ! 7)) = sgpr
   \<and> sizeOf (fst (interferences example_spill_ctx ! 7)) = 2
   \<and> \<not> within_one_linear_vgpr 63 2"
  by code_simp

text \<open>
  The same run, read off for id 7 alone: the assignment returns, and the two dwords of
  id 7 start at slot 63 of the 65 slots in use.
\<close>

theorem assign_spill_slots_straddles_witness:
  "\<exists>st. assign_spill_slots 64 example_spill_ctx 2 = Some st
        \<and> sgpr_slot st 7 = Some 63 \<and> vgpr_slot st 7 = None
        \<and> length (spill_slot_interferences st) = 65"
proof -
  have u: "[0 ..< 8] = [0, 1, 2, 3, 4, 5, 6, 7 :: nat]"
    by code_simp
  from assign_spill_slots_straddles show ?thesis
    unfolding u by auto
qed

subsection \<open>Lowering of divergent boolean phis\<close>





end
